theory Spec2Isabelle
  imports Main "HOL-Library.Word"
begin

section \<open>The tile voxel accessor of blub/procedural/voxel/tile/accessor.hpp\<close>

text \<open>
  The class \<open>accessor<configType>\<close> caches the voxels of one tile: a dense main array
  with a halo, an optional array holding six level-of-detail planes, and two counters
  of non-empty samples. The embedding follows the header function by function. A
  \<open>BASSERT\<close> that fails, an access outside a vector and a dereferenced null pointer
  end the call with an \<open>error\<close>; a member function that changes the object returns the
  new object, a \<open>const\<close> member function is a function of the object.
\<close>

subsection \<open>Errors\<close>

datatype error =
  AssertionFailed
  | OutOfRange
  | NullPointer
  | AllocationFailed
  | ArchiveError

subsection \<open>Configuration and derived constants\<close>

text \<open>
  Modelled from the spec: the configuration type \<open>t_config\<close> and its sample type
  \<open>t_config::t_data\<close> are not in the header. The spec calls the sample an opaque value
  that exposes an interpolation scalar and value equality, so the sample type is a type
  variable, \<open>operator==\<close> and \<open>operator!=\<close> are equality and its negation in HOL, and the
  configuration carries \<open>voxelsPerTile\<close>, the scalar \<open>getInterpolation\<close> of a sample and
  the default-constructed sample \<open>t_voxel()\<close>.
\<close>

record 'v t_config =
  voxelsPerTile :: int
  getInterpolation :: "'v \<Rightarrow> int"
  voxelDefault :: 'v

definition voxelLength :: "'v t_config \<Rightarrow> int" where
  "voxelLength cfg = voxelsPerTile cfg"

definition voxelLengthWithNormalCorrection :: "'v t_config \<Rightarrow> int" where
  "voxelLengthWithNormalCorrection cfg = voxelLength cfg + 3"

definition voxelLengthLod :: "'v t_config \<Rightarrow> int" where
  "voxelLengthLod cfg = (voxelLength cfg + 1) * 2"

definition voxelCount :: "'v t_config \<Rightarrow> int" where
  "voxelCount cfg =
     voxelLengthWithNormalCorrection cfg * voxelLengthWithNormalCorrection cfg
       * voxelLengthWithNormalCorrection cfg"

definition voxelCountLod :: "'v t_config \<Rightarrow> int" where
  "voxelCountLod cfg = voxelLengthLod cfg * voxelLengthLod cfg"

definition voxelCountLodAll :: "'v t_config \<Rightarrow> int" where
  "voxelCountLodAll cfg = 6 * voxelCountLod cfg"

definition voxelLengthSurface :: "'v t_config \<Rightarrow> int" where
  "voxelLengthSurface cfg = voxelsPerTile cfg + 1"

definition voxelCountSurface :: "'v t_config \<Rightarrow> int" where
  "voxelCountSurface cfg =
     voxelLengthSurface cfg * voxelLengthSurface cfg * voxelLengthSurface cfg"

text \<open>
  The constants are \<open>int32\<close> and \<open>constexpr\<close>: a configuration whose constants leave the
  range of \<open>int32\<close> does not compile, and a negative \<open>voxelCount\<close> is no size for the main
  array. The embedding computes in \<open>int\<close>, and the theorems assume a configuration
  whose array sizes are sizes that fit; then every constant and every index computed
  below fits as well.
\<close>

definition config_ok :: "'v t_config \<Rightarrow> bool" where
  "config_ok cfg =
     (0 \<le> voxelCount cfg \<and> voxelCount cfg < 2 ^ 31 \<and> voxelCountLodAll cfg < 2 ^ 31)"

subsection \<open>Vectors of integers\<close>

datatype vector3int32 = vector3int32 (x3: int) (y3: int) (z3: int)

datatype vector2int32 = vector2int32 (x2: int) (y2: int)

text \<open>
  Modelled from the spec: the comparison operators of \<open>vector3int32\<close> and
  \<open>vector2int32\<close> (blub/math) are not in the header. The spec reads the test in
  \<open>setVoxel\<close> as "within the surface region on every axis", so \<open>>=\<close> and \<open><\<close> hold when
  they hold for every component; a scalar operand stands for the vector with that
  value in every component.
\<close>

definition vector3_ge :: "vector3int32 \<Rightarrow> vector3int32 \<Rightarrow> bool" where
  "vector3_ge a b = (x3 a \<ge> x3 b \<and> y3 a \<ge> y3 b \<and> z3 a \<ge> z3 b)"

definition vector3_less :: "vector3int32 \<Rightarrow> vector3int32 \<Rightarrow> bool" where
  "vector3_less a b = (x3 a < x3 b \<and> y3 a < y3 b \<and> z3 a < z3 b)"

definition vector2_ge :: "vector2int32 \<Rightarrow> vector2int32 \<Rightarrow> bool" where
  "vector2_ge a b = (x2 a \<ge> x2 b \<and> y2 a \<ge> y2 b)"

definition vector2_less :: "vector2int32 \<Rightarrow> vector2int32 \<Rightarrow> bool" where
  "vector2_less a b = (x2 a < x2 b \<and> y2 a < y2 b)"

subsection \<open>The object\<close>

text \<open>
  \<open>m_voxelsLod\<close> is a scoped pointer: \<open>None\<close> is the null pointer. The counters are
  \<open>int32\<close>: 32-bit words read by \<open>sint\<close>, whose \<open>++\<close> wraps around.
\<close>

record 'v accessor =
  m_voxels :: "'v list"
  m_voxelsLod :: "'v list option"
  m_calculateLod :: bool
  m_numVoxelLargerZero :: "32 word"
  m_numVoxelLargerZeroLod :: "32 word"

text \<open>
  Modelled from the spec: \<open>blub::vector\<close> is not in the header. \<open>vector<t_voxel>(n)\<close>
  holds \<open>n\<close> default-constructed samples (the spec: "sample-default-initialized to
  length \<open>voxelCount\<close>"); a negative \<open>n\<close> is no size and the allocation fails.
\<close>

definition newVector :: "int \<Rightarrow> 'v \<Rightarrow> error + 'v list" where
  "newVector n d = (if n < 0 then Inl AllocationFailed else Inr (replicate (nat n) d))"

text \<open>The constructor, reached through \<open>create()\<close>.\<close>

definition create :: "'v t_config \<Rightarrow> error + 'v accessor" where
  "create cfg =
     (case newVector (voxelCount cfg) (voxelDefault cfg) of
        Inl e \<Rightarrow> Inl e
      | Inr voxels \<Rightarrow>
          Inr \<lparr> m_voxels = voxels,
                m_voxelsLod = None,
                m_calculateLod = False,
                m_numVoxelLargerZero = 0,
                m_numVoxelLargerZeroLod = 0 \<rparr>)"

subsection \<open>Main array\<close>

definition setVoxel ::
  "'v t_config \<Rightarrow> 'v accessor \<Rightarrow> vector3int32 \<Rightarrow> 'v \<Rightarrow> error + (bool \<times> 'v accessor)" where
  "setVoxel cfg a pos toSet =
     (if \<not> x3 pos \<ge> -1 then Inl AssertionFailed
      else if \<not> y3 pos \<ge> -1 then Inl AssertionFailed
      else if \<not> z3 pos \<ge> -1 then Inl AssertionFailed
      else if \<not> x3 pos < voxelLengthWithNormalCorrection cfg - 1 then Inl AssertionFailed
      else if \<not> y3 pos < voxelLengthWithNormalCorrection cfg - 1 then Inl AssertionFailed
      else if \<not> z3 pos < voxelLengthWithNormalCorrection cfg - 1 then Inl AssertionFailed
      else
        let a1 = (if getInterpolation cfg toSet \<ge> 0 \<and> vector3_ge pos (vector3int32 0 0 0)
                     \<and> vector3_less pos (vector3int32 (voxelLengthSurface cfg)
                           (voxelLengthSurface cfg) (voxelLengthSurface cfg))
                  then a\<lparr> m_numVoxelLargerZero := m_numVoxelLargerZero a + 1 \<rparr>
                  else a);
            index = (x3 pos + 1) * voxelLengthWithNormalCorrection cfg
                        * voxelLengthWithNormalCorrection cfg
                    + (y3 pos + 1) * voxelLengthWithNormalCorrection cfg + z3 pos + 1
        in if \<not> (0 \<le> index \<and> index < int (length (m_voxels a1))) then Inl OutOfRange
           else
             let oldValue = m_voxels a1 ! nat index;
                 a2 = a1\<lparr> m_voxels := (m_voxels a1)[nat index := toSet] \<rparr>
             in Inr (oldValue \<noteq> toSet, a2))"

definition getVoxel :: "'v t_config \<Rightarrow> 'v accessor \<Rightarrow> vector3int32 \<Rightarrow> error + 'v" where
  "getVoxel cfg a pos =
     (if \<not> x3 pos \<ge> -1 then Inl AssertionFailed
      else if \<not> y3 pos \<ge> -1 then Inl AssertionFailed
      else if \<not> z3 pos \<ge> -1 then Inl AssertionFailed
      else if \<not> x3 pos < voxelLengthWithNormalCorrection cfg - 1 then Inl AssertionFailed
      else if \<not> y3 pos < voxelLengthWithNormalCorrection cfg - 1 then Inl AssertionFailed
      else if \<not> z3 pos < voxelLengthWithNormalCorrection cfg - 1 then Inl AssertionFailed
      else
        let index = (x3 pos + 1) * voxelLengthWithNormalCorrection cfg
                        * voxelLengthWithNormalCorrection cfg
                    + (y3 pos + 1) * voxelLengthWithNormalCorrection cfg + z3 pos + 1
        in if \<not> (0 \<le> index \<and> index < int (length (m_voxels a))) then Inl OutOfRange
           else Inr (m_voxels a ! nat index))"

definition isEmpty :: "'v accessor \<Rightarrow> bool" where
  "isEmpty a = (m_numVoxelLargerZero a = 0)"

definition isFull :: "'v t_config \<Rightarrow> 'v accessor \<Rightarrow> bool" where
  "isFull cfg a = (sint (m_numVoxelLargerZero a) = voxelCountSurface cfg)"

definition getCalculateLod :: "'v accessor \<Rightarrow> bool" where
  "getCalculateLod a = m_calculateLod a"

definition getNumVoxelLargerZero :: "'v accessor \<Rightarrow> 32 word" where
  "getNumVoxelLargerZero a = m_numVoxelLargerZero a"

definition getNumVoxelLargerZeroLod :: "'v accessor \<Rightarrow> 32 word" where
  "getNumVoxelLargerZeroLod a = m_numVoxelLargerZeroLod a"

definition getVoxelArray :: "'v accessor \<Rightarrow> 'v list" where
  "getVoxelArray a = m_voxels a"

definition getVoxelArrayLod :: "'v accessor \<Rightarrow> 'v list option" where
  "getVoxelArrayLod a = m_voxelsLod a"

definition setNumVoxelLargerZero :: "'v accessor \<Rightarrow> 32 word \<Rightarrow> 'v accessor" where
  "setNumVoxelLargerZero a toSet = a\<lparr> m_numVoxelLargerZero := toSet \<rparr>"

definition setNumVoxelLargerZeroLod :: "'v accessor \<Rightarrow> 32 word \<Rightarrow> 'v accessor" where
  "setNumVoxelLargerZeroLod a toSet = a\<lparr> m_numVoxelLargerZeroLod := toSet \<rparr>"

subsection \<open>Level of detail\<close>

definition setCalculateLod :: "'v t_config \<Rightarrow> 'v accessor \<Rightarrow> bool \<Rightarrow> error + 'v accessor" where
  "setCalculateLod cfg a lod =
     (if m_calculateLod a = lod then Inr a
      else
        let a1 = a\<lparr> m_calculateLod := lod \<rparr>
        in if m_calculateLod a1 then
             (if \<not> m_voxelsLod a1 = None then Inl AssertionFailed
              else
                case newVector (6 * voxelCountLod cfg) (voxelDefault cfg) of
                  Inl e \<Rightarrow> Inl e
                | Inr voxelsLod \<Rightarrow> Inr (a1\<lparr> m_voxelsLod := Some voxelsLod \<rparr>))
           else Inr (a1\<lparr> m_voxelsLod := None \<rparr>))"

definition calculateCoordsLod ::
  "'v t_config \<Rightarrow> vector3int32 \<Rightarrow> int \<Rightarrow> error + vector2int32" where
  "calculateCoordsLod cfg pos lod =
     (if \<not> lod \<ge> 0 then Inl AssertionFailed
      else if \<not> lod < 6 then Inl AssertionFailed
      else if \<not> x3 pos \<ge> 0 then Inl AssertionFailed
      else if \<not> y3 pos \<ge> 0 then Inl AssertionFailed
      else if \<not> z3 pos \<ge> 0 then Inl AssertionFailed
      else if \<not> x3 pos < voxelLengthLod cfg then Inl AssertionFailed
      else if \<not> y3 pos < voxelLengthLod cfg then Inl AssertionFailed
      else if \<not> z3 pos < voxelLengthLod cfg then Inl AssertionFailed
      else if \<not> (x3 pos = 0 \<or> y3 pos = 0 \<or> z3 pos = 0) then Inl AssertionFailed
      else if lod = 0 \<or> lod = 1 then
        (if \<not> x3 pos = 0 then Inl AssertionFailed
         else Inr (vector2int32 (y3 pos) (z3 pos)))
      else if lod = 2 \<or> lod = 3 then
        (if \<not> y3 pos = 0 then Inl AssertionFailed
         else Inr (vector2int32 (x3 pos) (z3 pos)))
      else if lod = 4 \<or> lod = 5 then
        (if \<not> z3 pos = 0 then Inl AssertionFailed
         else Inr (vector2int32 (x3 pos) (y3 pos)))
      else Inl AssertionFailed)"

text \<open>
  The protected overloads that take the projected coordinate. In the setter the index
  is a \<open>uint32\<close>: the conversion is the \<open>mod 2 ^ 32\<close>. In the getter the \<open>int32\<close> index
  goes to \<open>operator[]\<close>, where a negative value is out of range.
\<close>

definition setVoxelLod_index ::
  "'v t_config \<Rightarrow> 'v accessor \<Rightarrow> vector2int32 \<Rightarrow> 'v \<Rightarrow> int \<Rightarrow> error + (bool \<times> 'v accessor)" where
  "setVoxelLod_index cfg a index toSet lod =
     (if \<not> vector2_ge index (vector2int32 0 0) then Inl AssertionFailed
      else if \<not> vector2_less index (vector2int32 (voxelCountLod cfg) (voxelCountLod cfg))
        then Inl AssertionFailed
      else if \<not> m_calculateLod a then Inl AssertionFailed
      else
        case m_voxelsLod a of
          None \<Rightarrow> Inl AssertionFailed
        | Some voxelsLod \<Rightarrow>
            let a1 = (if getInterpolation cfg toSet \<ge> 0
                      then a\<lparr> m_numVoxelLargerZeroLod := m_numVoxelLargerZeroLod a + 1 \<rparr>
                      else a);
                index' = (lod * voxelCountLod cfg + x2 index * voxelLengthLod cfg + y2 index)
                           mod 2 ^ 32
            in if \<not> index' < int (length voxelsLod) then Inl OutOfRange
               else
                 let oldValue = voxelsLod ! nat index'
                 in Inr (oldValue \<noteq> toSet,
                         a1\<lparr> m_voxelsLod := Some (voxelsLod[nat index' := toSet]) \<rparr>))"

definition getVoxelLod_index ::
  "'v t_config \<Rightarrow> 'v accessor \<Rightarrow> vector2int32 \<Rightarrow> int \<Rightarrow> error + 'v" where
  "getVoxelLod_index cfg a index lod =
     (if \<not> vector2_ge index (vector2int32 0 0) then Inl AssertionFailed
      else if \<not> vector2_less index (vector2int32 (voxelCountLod cfg) (voxelCountLod cfg))
        then Inl AssertionFailed
      else if \<not> m_calculateLod a then Inl AssertionFailed
      else
        case m_voxelsLod a of
          None \<Rightarrow> Inl NullPointer
        | Some voxelsLod \<Rightarrow>
            let i = lod * voxelCountLod cfg + x2 index * voxelLengthLod cfg + y2 index
            in if \<not> (0 \<le> i \<and> i < int (length voxelsLod)) then Inl OutOfRange
               else Inr (voxelsLod ! nat i))"

text \<open>The public overloads project the position first.\<close>

definition setVoxelLod ::
  "'v t_config \<Rightarrow> 'v accessor \<Rightarrow> vector3int32 \<Rightarrow> 'v \<Rightarrow> int \<Rightarrow> error + (bool \<times> 'v accessor)" where
  "setVoxelLod cfg a pos toSet lod =
     (case calculateCoordsLod cfg pos lod of
        Inl e \<Rightarrow> Inl e
      | Inr index \<Rightarrow> setVoxelLod_index cfg a index toSet lod)"

definition getVoxelLod ::
  "'v t_config \<Rightarrow> 'v accessor \<Rightarrow> vector3int32 \<Rightarrow> int \<Rightarrow> error + 'v" where
  "getVoxelLod cfg a pos lod =
     (case calculateCoordsLod cfg pos lod of
        Inl e \<Rightarrow> Inl e
      | Inr index \<Rightarrow> getVoxelLod_index cfg a index lod)"

subsection \<open>Serialization\<close>

text \<open>
  Modelled from the spec: the archive classes of blub/serialization are not in the
  header. The spec fixes the logical fields and their order, not the bytes, so an
  archive is the list of the named values written to it: writing appends a value,
  reading takes the first value and fails when the archive is exhausted or the value
  has another name or type.
\<close>

datatype 'v archiveValue =
  ABool bool
  | AInt32 "32 word"
  | AVoxels "'v list"

type_synonym 'v archive = "(string \<times> 'v archiveValue) list"

definition writeValue :: "'v archive \<Rightarrow> string \<Rightarrow> 'v archiveValue \<Rightarrow> 'v archive" where
  "writeValue ar name v = ar @ [(name, v)]"

fun readBool :: "'v archive \<Rightarrow> string \<Rightarrow> error + (bool \<times> 'v archive)" where
  "readBool ((n, ABool b) # ar) name = (if n = name then Inr (b, ar) else Inl ArchiveError)"
| "readBool _ name = Inl ArchiveError"

fun readInt32 :: "'v archive \<Rightarrow> string \<Rightarrow> error + (32 word \<times> 'v archive)" where
  "readInt32 ((n, AInt32 i) # ar) name = (if n = name then Inr (i, ar) else Inl ArchiveError)"
| "readInt32 _ name = Inl ArchiveError"

fun readVoxels :: "'v archive \<Rightarrow> string \<Rightarrow> error + ('v list \<times> 'v archive)" where
  "readVoxels ((n, AVoxels vs) # ar) name = (if n = name then Inr (vs, ar) else Inl ArchiveError)"
| "readVoxels _ name = Inl ArchiveError"

definition save :: "'v accessor \<Rightarrow> 'v archive \<Rightarrow> 'v archive" where
  "save a readWrite = writeValue readWrite ''calculateLod'' (ABool (m_calculateLod a))"

definition load ::
  "'v t_config \<Rightarrow> 'v accessor \<Rightarrow> 'v archive \<Rightarrow> error + ('v accessor \<times> 'v archive)" where
  "load cfg a readWrite =
     (case readBool readWrite ''calculateLod'' of
        Inl e \<Rightarrow> Inl e
      | Inr (calculateLod, ar1) \<Rightarrow>
          (case setCalculateLod cfg a calculateLod of
             Inl e \<Rightarrow> Inl e
           | Inr a1 \<Rightarrow> Inr (a1, ar1)))"

text \<open>
  \<open>serialize\<close> is one template for both directions: \<open>&\<close> writes to a saving archive
  and reads from a loading one, and \<open>saveLoad\<close> calls \<open>save\<close> or \<open>load\<close>.
\<close>

definition serialize_save :: "'v accessor \<Rightarrow> 'v archive \<Rightarrow> error + 'v archive" where
  "serialize_save a readWrite =
     (let ar1 = writeValue readWrite ''numVoxelLargerZero'' (AInt32 (m_numVoxelLargerZero a));
          ar2 = writeValue ar1 ''numVoxelLargerZeroLod'' (AInt32 (m_numVoxelLargerZeroLod a));
          ar3 = save a ar2;
          ar4 = writeValue ar3 ''voxels'' (AVoxels (m_voxels a))
      in if m_calculateLod a then
           (case m_voxelsLod a of
              None \<Rightarrow> Inl AssertionFailed
            | Some voxelsLod \<Rightarrow> Inr (writeValue ar4 ''voxelsLod'' (AVoxels voxelsLod)))
         else Inr ar4)"

definition serialize_load ::
  "'v t_config \<Rightarrow> 'v accessor \<Rightarrow> 'v archive \<Rightarrow> error + ('v accessor \<times> 'v archive)" where
  "serialize_load cfg a readWrite =
     (case readInt32 readWrite ''numVoxelLargerZero'' of
        Inl e \<Rightarrow> Inl e
      | Inr (n, ar1) \<Rightarrow>
     (case readInt32 ar1 ''numVoxelLargerZeroLod'' of
        Inl e \<Rightarrow> Inl e
      | Inr (nLod, ar2) \<Rightarrow>
     (case load cfg (a\<lparr> m_numVoxelLargerZero := n, m_numVoxelLargerZeroLod := nLod \<rparr>) ar2 of
        Inl e \<Rightarrow> Inl e
      | Inr (a3, ar3) \<Rightarrow>
     (case readVoxels ar3 ''voxels'' of
        Inl e \<Rightarrow> Inl e
      | Inr (voxels, ar4) \<Rightarrow>
          let a4 = a3\<lparr> m_voxels := voxels \<rparr>
          in if m_calculateLod a4 then
               (case m_voxelsLod a4 of
                  None \<Rightarrow> Inl AssertionFailed
                | Some _ \<Rightarrow>
                    (case readVoxels ar4 ''voxelsLod'' of
                       Inl e \<Rightarrow> Inl e
                     | Inr (voxelsLod, ar5) \<Rightarrow> Inr (a4\<lparr> m_voxelsLod := Some voxelsLod \<rparr>, ar5)))
             else Inr (a4, ar4)))))"

subsection \<open>Invariant\<close>

text \<open>
  What the constructor establishes and the member functions keep: the main array has
  \<open>voxelCount\<close> cells, and the level-of-detail array is there exactly when the flag is
  set, with \<open>voxelCountLodAll\<close> cells.
\<close>

definition lodHandle_inv :: "'v accessor \<Rightarrow> bool" where
  "lodHandle_inv a = ((m_voxelsLod a \<noteq> None) = m_calculateLod a)"

definition accessor_inv :: "'v t_config \<Rightarrow> 'v accessor \<Rightarrow> bool" where
  "accessor_inv cfg a =
     (int (length (m_voxels a)) = voxelCount cfg
      \<and> (case m_voxelsLod a of
            None \<Rightarrow> \<not> m_calculateLod a
          | Some voxelsLod \<Rightarrow>
              m_calculateLod a \<and> int (length voxelsLod) = voxelCountLodAll cfg))"

subsection \<open>The indices and preconditions of the specification\<close>

text \<open>
  The specification's index of a position in the main array,
  \<open>(x+1)\<cdot>H\<^sup>2 + (y+1)\<cdot>H + (z+1)\<close> with \<open>H = voxelLengthWithHalo\<close>, and of a projected
  coordinate in the level-of-detail array,
  \<open>faceIndex\<cdot>voxelCountLodPlane + x2D\<cdot>voxelLengthLod + y2D\<close>. They follow the
  specification's words; the theorems compare them with what the code computes.
\<close>

definition spec_index :: "'v t_config \<Rightarrow> vector3int32 \<Rightarrow> int" where
  "spec_index cfg pos =
     (x3 pos + 1) * (voxelLengthWithNormalCorrection cfg) ^ 2
       + (y3 pos + 1) * voxelLengthWithNormalCorrection cfg + (z3 pos + 1)"

definition spec_indexLod :: "'v t_config \<Rightarrow> vector2int32 \<Rightarrow> int \<Rightarrow> int" where
  "spec_indexLod cfg index faceIndex =
     faceIndex * voxelCountLod cfg + x2 index * voxelLengthLod cfg + y2 index"

text \<open>
  The specification's preconditions: a position of the main array has every component
  in \<open>[-1, voxelLengthWithHalo - 2]\<close>; a position of the surface region has every
  component in \<open>[0, voxelLengthSurface)\<close>; a projected coordinate has both components in
  \<open>[0, voxelLengthLod)\<close>; a position handed to the projection has a face index in
  \<open>[0, 6)\<close>, every component in \<open>[0, voxelLengthLod)\<close> and lies on the zero plane of its
  face.
\<close>

definition posInTile :: "'v t_config \<Rightarrow> vector3int32 \<Rightarrow> bool" where
  "posInTile cfg pos =
     (-1 \<le> x3 pos \<and> x3 pos \<le> voxelLengthWithNormalCorrection cfg - 2
      \<and> -1 \<le> y3 pos \<and> y3 pos \<le> voxelLengthWithNormalCorrection cfg - 2
      \<and> -1 \<le> z3 pos \<and> z3 pos \<le> voxelLengthWithNormalCorrection cfg - 2)"

definition posInSurface :: "'v t_config \<Rightarrow> vector3int32 \<Rightarrow> bool" where
  "posInSurface cfg pos =
     (0 \<le> x3 pos \<and> x3 pos < voxelLengthSurface cfg
      \<and> 0 \<le> y3 pos \<and> y3 pos < voxelLengthSurface cfg
      \<and> 0 \<le> z3 pos \<and> z3 pos < voxelLengthSurface cfg)"

definition indexInPlane :: "'v t_config \<Rightarrow> vector2int32 \<Rightarrow> bool" where
  "indexInPlane cfg index =
     (0 \<le> x2 index \<and> x2 index < voxelLengthLod cfg
      \<and> 0 \<le> y2 index \<and> y2 index < voxelLengthLod cfg)"

definition posOnFace :: "'v t_config \<Rightarrow> vector3int32 \<Rightarrow> int \<Rightarrow> bool" where
  "posOnFace cfg pos faceIndex =
     (0 \<le> faceIndex \<and> faceIndex < 6
      \<and> 0 \<le> x3 pos \<and> x3 pos < voxelLengthLod cfg
      \<and> 0 \<le> y3 pos \<and> y3 pos < voxelLengthLod cfg
      \<and> 0 \<le> z3 pos \<and> z3 pos < voxelLengthLod cfg
      \<and> (if faceIndex = 0 \<or> faceIndex = 1 then x3 pos = 0
          else if faceIndex = 2 \<or> faceIndex = 3 then y3 pos = 0
          else z3 pos = 0))"

subsection \<open>A small configuration\<close>

text \<open>
  Tiles of edge 0 whose samples are their own interpolation scalar, empty by default:
  the main array has 27 cells, the surface region one cell, and each of the six planes
  four cells. The theorems below are evaluated on it.
\<close>

definition config0 :: "int t_config" where
  "config0 = \<lparr> voxelsPerTile = 0, getInterpolation = (\<lambda>v. v), voxelDefault = -1 \<rparr>"

text \<open>
  The object that \<open>create()\<close> builds for this configuration, and the same object after
  \<open>setCalculateLod(true)\<close>.
\<close>

definition accessor0 :: "int accessor" where
  "accessor0 =
     \<lparr> m_voxels = replicate 27 (-1), m_voxelsLod = None, m_calculateLod = False,
       m_numVoxelLargerZero = 0, m_numVoxelLargerZeroLod = 0 \<rparr>"

definition accessorLod0 :: "int accessor" where
  "accessorLod0 =
     \<lparr> m_voxels = replicate 27 (-1), m_voxelsLod = Some (replicate 24 (-1)),
       m_calculateLod = True, m_numVoxelLargerZero = 0, m_numVoxelLargerZeroLod = 0 \<rparr>"

text \<open>
  Two populated objects of this configuration. The first is \<open>accessor0\<close> after
  \<open>setVoxel((0,0,0), 7)\<close>, \<open>setVoxel((-1,0,1), 3)\<close> and
  \<open>setNumVoxelLargerZeroLod(5)\<close>; the second has level of detail enabled, two samples
  written to its planes and both counters set.
\<close>

definition accessorPopulated0 :: "int accessor" where
  "accessorPopulated0 =
     \<lparr> m_voxels = (replicate 27 (-1))[13 := 7, 5 := 3], m_voxelsLod = None,
       m_calculateLod = False, m_numVoxelLargerZero = 1, m_numVoxelLargerZeroLod = 5 \<rparr>"

definition accessorLodPopulated0 :: "int accessor" where
  "accessorLodPopulated0 =
     \<lparr> m_voxels = (replicate 27 (-1))[13 := 7, 5 := 3],
       m_voxelsLod = Some ((replicate 24 (-1))[7 := 7, 23 := 2]),
       m_calculateLod = True, m_numVoxelLargerZero = 1, m_numVoxelLargerZeroLod = 2 \<rparr>"

section \<open>Properties\<close>

subsection \<open>Index arithmetic and the main array\<close>

lemma main_index_bounds:
  fixes a b c H :: int
  assumes "0 \<le> a" "a < H" "0 \<le> b" "b < H" "0 \<le> c" "c < H"
  shows "0 \<le> a * H * H + b * H + c \<and> a * H * H + b * H + c < H * H * H"
proof -
  have H0: "0 < H" using assms by linarith
  have a1: "a + 1 \<le> H" and b1: "b + 1 \<le> H" using assms by linarith+
  have "b * H + c < (b + 1) * H" using assms by (simp add: algebra_simps)
  also have "\<dots> \<le> H * H" using b1 H0 by (simp add: mult_right_mono)
  finally have lo: "b * H + c < H * H" .
  have "a * H * H + (b * H + c) < a * H * H + H * H" using lo by linarith
  also have "\<dots> = (a + 1) * (H * H)" by (simp add: algebra_simps)
  also have "\<dots> \<le> H * (H * H)" using a1 H0 by (intro mult_right_mono) simp_all
  finally have up: "a * H * H + b * H + c < H * H * H" by (simp add: algebra_simps)
  have "0 \<le> a * H * H" "0 \<le> b * H" using assms H0 by simp_all
  then have "0 \<le> a * H * H + b * H + c" using assms by linarith
  with up show ?thesis by simp
qed

lemma lod_index_bounds:
  fixes f x y L :: int
  assumes "0 \<le> f" "f < 6" "0 \<le> x" "x < L" "0 \<le> y" "y < L"
  shows "0 \<le> f * (L * L) + x * L + y \<and> f * (L * L) + x * L + y < 6 * (L * L)"
proof -
  have L0: "0 < L" using assms by linarith
  have x1: "x + 1 \<le> L" and f1: "f + 1 \<le> 6" using assms by linarith+
  have "x * L + y < (x + 1) * L" using assms by (simp add: algebra_simps)
  also have "\<dots> \<le> L * L" using x1 L0 by (simp add: mult_right_mono)
  finally have lo: "x * L + y < L * L" .
  have LL: "0 \<le> L * L" by simp
  have "f * (L * L) + (x * L + y) < f * (L * L) + L * L" using lo by linarith
  also have "\<dots> = (f + 1) * (L * L)" by (simp add: algebra_simps)
  also have "\<dots> \<le> 6 * (L * L)" using f1 LL by (intro mult_right_mono) simp_all
  finally have up: "f * (L * L) + x * L + y < 6 * (L * L)" by (simp add: algebra_simps)
  have "0 \<le> f * (L * L)" "0 \<le> x * L" using assms L0 by simp_all
  then have "0 \<le> f * (L * L) + x * L + y" using assms by linarith
  with up show ?thesis by simp
qed

lemma spec_index_code:
  "spec_index cfg pos =
     (x3 pos + 1) * voxelLengthWithNormalCorrection cfg * voxelLengthWithNormalCorrection cfg
       + (y3 pos + 1) * voxelLengthWithNormalCorrection cfg + z3 pos + 1"
  by (simp add: spec_index_def power2_eq_square algebra_simps)

lemma spec_index_range:
  assumes "posInTile cfg pos"
  shows "0 \<le> spec_index cfg pos \<and> spec_index cfg pos < voxelCount cfg"
proof -
  let ?H = "voxelLengthWithNormalCorrection cfg"
  have b: "0 \<le> x3 pos + 1" "x3 pos + 1 < ?H" "0 \<le> y3 pos + 1" "y3 pos + 1 < ?H"
    "0 \<le> z3 pos + 1" "z3 pos + 1 < ?H"
    using assms by (simp_all add: posInTile_def)
  from main_index_bounds [OF b]
  show ?thesis by (simp add: spec_index_code voxelCount_def add.assoc)
qed

lemma setVoxel_posInTile:
  assumes inv: "accessor_inv cfg a" and pos: "posInTile cfg pos"
  shows "setVoxel cfg a pos v =
     Inr (m_voxels a ! nat (spec_index cfg pos) \<noteq> v,
          a\<lparr> m_numVoxelLargerZero :=
                (if 0 \<le> getInterpolation cfg v \<and> posInSurface cfg pos
                 then m_numVoxelLargerZero a + 1 else m_numVoxelLargerZero a),
             m_voxels := (m_voxels a)[nat (spec_index cfg pos) := v] \<rparr>)"
proof -
  have len: "int (length (m_voxels a)) = voxelCount cfg"
    using inv by (simp add: accessor_inv_def)
  have asserts: "-1 \<le> x3 pos" "-1 \<le> y3 pos" "-1 \<le> z3 pos"
    "x3 pos < voxelLengthWithNormalCorrection cfg - 1"
    "y3 pos < voxelLengthWithNormalCorrection cfg - 1"
    "z3 pos < voxelLengthWithNormalCorrection cfg - 1"
    using pos by (simp_all add: posInTile_def)
  have surf: "(vector3_ge pos (vector3int32 0 0 0)
       \<and> vector3_less pos (vector3int32 (voxelLengthSurface cfg)
             (voxelLengthSurface cfg) (voxelLengthSurface cfg))) = posInSurface cfg pos"
    by (auto simp: vector3_ge_def vector3_less_def posInSurface_def)
  have rng: "0 \<le> spec_index cfg pos" "spec_index cfg pos < int (length (m_voxels a))"
    using spec_index_range [OF pos] len by simp_all
  show ?thesis
    unfolding setVoxel_def spec_index_code [symmetric]
    using asserts rng surf by (simp add: Let_def)
qed

lemma getVoxel_posInTile:
  assumes inv: "accessor_inv cfg a" and pos: "posInTile cfg pos"
  shows "getVoxel cfg a pos = Inr (m_voxels a ! nat (spec_index cfg pos))"
proof -
  have len: "int (length (m_voxels a)) = voxelCount cfg"
    using inv by (simp add: accessor_inv_def)
  have asserts: "-1 \<le> x3 pos" "-1 \<le> y3 pos" "-1 \<le> z3 pos"
    "x3 pos < voxelLengthWithNormalCorrection cfg - 1"
    "y3 pos < voxelLengthWithNormalCorrection cfg - 1"
    "z3 pos < voxelLengthWithNormalCorrection cfg - 1"
    using pos by (simp_all add: posInTile_def)
  have rng: "0 \<le> spec_index cfg pos" "spec_index cfg pos < int (length (m_voxels a))"
    using spec_index_range [OF pos] len by simp_all
  show ?thesis
    unfolding getVoxel_def spec_index_code [symmetric]
    using asserts rng by (simp add: Let_def)
qed

lemma setVoxel_inv:
  assumes "accessor_inv cfg a" and "setVoxel cfg a pos v = Inr (c, a')"
  shows "accessor_inv cfg a'"
  using assms
  by (auto simp: setVoxel_def accessor_inv_def Let_def split: if_splits option.splits)

lemma create_ok:
  assumes "config_ok cfg"
  shows "create cfg =
     Inr \<lparr> m_voxels = replicate (nat (voxelCount cfg)) (voxelDefault cfg),
           m_voxelsLod = None, m_calculateLod = False,
           m_numVoxelLargerZero = 0, m_numVoxelLargerZeroLod = 0 \<rparr>"
  using assms by (simp add: create_def newVector_def config_ok_def)

lemma create_inv:
  assumes "config_ok cfg" and "create cfg = Inr a"
  shows "accessor_inv cfg a"
  using assms create_ok [OF assms(1)] by (auto simp: accessor_inv_def config_ok_def)

subsection \<open>The small configuration\<close>

lemma config_ok_config0: "config_ok config0"
  by (simp add: config_ok_def config0_def voxelCount_def voxelCountLodAll_def voxelCountLod_def
      voxelLengthLod_def voxelLengthWithNormalCorrection_def voxelLength_def)

lemmas config0_simps =
  config0_def voxelCount_def voxelCountLodAll_def voxelCountLod_def voxelLengthLod_def
  voxelLengthWithNormalCorrection_def voxelLength_def voxelLengthSurface_def
  voxelCountSurface_def

lemma accessor_inv_accessor0: "accessor_inv config0 accessor0"
  by (simp add: accessor_inv_def accessor0_def config0_simps)

lemma accessor_inv_accessorLod0: "accessor_inv config0 accessorLod0"
  by (simp add: accessor_inv_def accessorLod0_def config0_simps)

lemma create_config0: "create config0 = Inr accessor0"
  using create_ok [OF config_ok_config0] by (simp add: accessor0_def config0_simps)

subsection \<open>Projected coordinates\<close>

lemma less_square:
  fixes x L :: int
  assumes "0 \<le> x" "x < L"
  shows "x < L * L"
proof -
  have "1 \<le> L" using assms by linarith
  then have "L * 1 \<le> L * L" by (intro mult_left_mono) simp_all
  then have "L \<le> L * L" by simp
  with assms show ?thesis by linarith
qed

lemma spec_indexLod_range:
  assumes "indexInPlane cfg index" "0 \<le> lod" "lod < 6"
  shows "0 \<le> spec_indexLod cfg index lod \<and> spec_indexLod cfg index lod < voxelCountLodAll cfg"
proof -
  have b: "0 \<le> x2 index" "x2 index < voxelLengthLod cfg"
    "0 \<le> y2 index" "y2 index < voxelLengthLod cfg"
    using assms(1) by (simp_all add: indexInPlane_def)
  from lod_index_bounds [OF assms(2,3) b]
  show ?thesis by (simp add: spec_indexLod_def voxelCountLodAll_def voxelCountLod_def)
qed

lemma lod_asserts:
  assumes "indexInPlane cfg index"
  shows "vector2_ge index (vector2int32 0 0)"
    and "vector2_less index (vector2int32 (voxelCountLod cfg) (voxelCountLod cfg))"
proof -
  have b: "0 \<le> x2 index" "x2 index < voxelLengthLod cfg"
    "0 \<le> y2 index" "y2 index < voxelLengthLod cfg"
    using assms by (simp_all add: indexInPlane_def)
  show "vector2_ge index (vector2int32 0 0)" using b by (simp add: vector2_ge_def)
  show "vector2_less index (vector2int32 (voxelCountLod cfg) (voxelCountLod cfg))"
    using less_square [OF b(1,2)] less_square [OF b(3,4)]
    by (simp add: vector2_less_def voxelCountLod_def)
qed

lemma setVoxelLod_index_inPlane:
  assumes cfg: "config_ok cfg" and inv: "accessor_inv cfg a"
    and lodArr: "m_voxelsLod a = Some voxelsLod"
    and idx: "indexInPlane cfg index" and lod: "0 \<le> lod" "lod < 6"
  shows "setVoxelLod_index cfg a index v lod =
     Inr (voxelsLod ! nat (spec_indexLod cfg index lod) \<noteq> v,
          a\<lparr> m_numVoxelLargerZeroLod :=
                (if 0 \<le> getInterpolation cfg v
                 then m_numVoxelLargerZeroLod a + 1 else m_numVoxelLargerZeroLod a),
             m_voxelsLod := Some (voxelsLod[nat (spec_indexLod cfg index lod) := v]) \<rparr>)"
proof -
  have flag: "m_calculateLod a" and len: "int (length voxelsLod) = voxelCountLodAll cfg"
    using inv lodArr by (simp_all add: accessor_inv_def)
  note rng = spec_indexLod_range [OF idx lod]
  have "spec_indexLod cfg index lod < 2 ^ 32"
    using rng cfg by (simp add: config_ok_def)
  then have md: "spec_indexLod cfg index lod mod 2 ^ 32 = spec_indexLod cfg index lod"
    using rng by simp
  have md': "(lod * voxelCountLod cfg + x2 index * voxelLengthLod cfg + y2 index) mod 4294967296
      = spec_indexLod cfg index lod"
    using md by (simp add: spec_indexLod_def)
  have inb: "spec_indexLod cfg index lod < int (length voxelsLod)"
    using rng len by simp
  show ?thesis
    unfolding setVoxelLod_index_def
    using lod_asserts [OF idx] flag lodArr md' inb by (simp add: Let_def)
qed

lemma getVoxelLod_index_inPlane:
  assumes inv: "accessor_inv cfg a"
    and lodArr: "m_voxelsLod a = Some voxelsLod"
    and idx: "indexInPlane cfg index" and lod: "0 \<le> lod" "lod < 6"
  shows "getVoxelLod_index cfg a index lod = Inr (voxelsLod ! nat (spec_indexLod cfg index lod))"
proof -
  have flag: "m_calculateLod a" and len: "int (length voxelsLod) = voxelCountLodAll cfg"
    using inv lodArr by (simp_all add: accessor_inv_def)
  note rng = spec_indexLod_range [OF idx lod]
  have inb: "0 \<le> spec_indexLod cfg index lod"
    "spec_indexLod cfg index lod < int (length voxelsLod)"
    using rng len by simp_all
  show ?thesis
    unfolding getVoxelLod_index_def spec_indexLod_def [symmetric]
    using lod_asserts [OF idx] flag lodArr inb by (simp add: Let_def)
qed

lemma calculateCoordsLod_posOnFace:
  assumes "posOnFace cfg pos lod"
  shows "calculateCoordsLod cfg pos lod =
     Inr (if lod = 0 \<or> lod = 1 then vector2int32 (y3 pos) (z3 pos)
          else if lod = 2 \<or> lod = 3 then vector2int32 (x3 pos) (z3 pos)
          else vector2int32 (x3 pos) (y3 pos))"
proof -
  have "lod = 0 \<or> lod = 1 \<or> lod = 2 \<or> lod = 3 \<or> lod = 4 \<or> lod = 5"
    using assms by (auto simp: posOnFace_def)
  then show ?thesis
    using assms by (auto simp: posOnFace_def calculateCoordsLod_def)
qed

lemma calculateCoordsLod_inPlane:
  assumes "posOnFace cfg pos lod"
  shows "\<exists>index. calculateCoordsLod cfg pos lod = Inr index \<and> indexInPlane cfg index"
  using assms calculateCoordsLod_posOnFace [OF assms]
  by (auto simp: posOnFace_def indexInPlane_def)

subsection \<open>Claims about the main array\<close>

text \<open>
  C1. For every position \<open>pos\<close> with every component in
  \<open>[-1, voxelLengthWithHalo - 2]\<close> and every sample \<open>v\<close>, \<open>setVoxel(pos, v)\<close> followed by
  \<open>getVoxel(pos)\<close> returns \<open>v\<close>. Both go through the index
  \<open>(x+1)\<cdot>H\<^sup>2 + (y+1)\<cdot>H + (z+1)\<close>: the write replaces the cell at that index and nothing
  else in the array, and the read returns the cell at that index. \<open>getVoxel\<close> is a
  \<open>const\<close> member function, a function of the object to the sample: the object a read
  leaves behind is the object it was called on.
\<close>

theorem setVoxel_getVoxel_roundtrip:
  assumes cfg: "config_ok cfg" and inv: "accessor_inv cfg a" and pos: "posInTile cfg pos"
  shows "\<exists>changed a'.
           setVoxel cfg a pos v = Inr (changed, a')
         \<and> m_voxels a' = (m_voxels a)[nat (spec_index cfg pos) := v]
         \<and> getVoxel cfg a' pos = Inr v
         \<and> getVoxel cfg a pos = Inr (m_voxels a ! nat (spec_index cfg pos))"
proof -
  obtain changed a' where set: "setVoxel cfg a pos v = Inr (changed, a')"
    and arr: "m_voxels a' = (m_voxels a)[nat (spec_index cfg pos) := v]"
    using setVoxel_posInTile [OF inv pos, of v] by simp
  have inv': "accessor_inv cfg a'" by (rule setVoxel_inv [OF inv set])
  have "int (length (m_voxels a)) = voxelCount cfg"
    using inv by (simp add: accessor_inv_def)
  then have "nat (spec_index cfg pos) < length (m_voxels a)"
    using spec_index_range [OF pos] by linarith
  then have "getVoxel cfg a' pos = Inr v"
    using getVoxel_posInTile [OF inv' pos] arr by simp
  with set arr getVoxel_posInTile [OF inv pos] show ?thesis by blast
qed

theorem setVoxel_getVoxel_roundtrip_witness:
  "config_ok config0 \<and> accessor_inv config0 accessor0
   \<and> posInTile config0 (vector3int32 (-1) 0 1)
   \<and> (\<exists>changed a'.
           setVoxel config0 accessor0 (vector3int32 (-1) 0 1) 5 = Inr (changed, a')
         \<and> m_voxels a' = (m_voxels accessor0)[5 := 5]
         \<and> getVoxel config0 a' (vector3int32 (-1) 0 1) = Inr 5
         \<and> getVoxel config0 accessor0 (vector3int32 (-1) 0 1) = Inr (-1))"
proof -
  have pos: "posInTile config0 (vector3int32 (-1) 0 1)"
    by (simp add: posInTile_def config0_simps)
  have i: "nat (spec_index config0 (vector3int32 (-1) 0 1)) = 5"
    by (simp add: spec_index_def config0_simps)
  have old: "m_voxels accessor0 ! 5 = -1"
    by (simp add: accessor0_def)
  from setVoxel_getVoxel_roundtrip [OF config_ok_config0 accessor_inv_accessor0 pos, of 5]
  show ?thesis
    using config_ok_config0 accessor_inv_accessor0 pos by (simp add: i old)
qed

text \<open>
  C2. For every valid position and sample \<open>v\<close>, \<open>setVoxel(pos, v)\<close> returns false if and
  only if \<open>v\<close> equals the sample stored at \<open>pos\<close> before the write (the sample that
  \<open>getVoxel\<close> returned before the call), and true otherwise.
\<close>

theorem setVoxel_returns_changed:
  assumes cfg: "config_ok cfg" and inv: "accessor_inv cfg a" and pos: "posInTile cfg pos"
  shows "\<exists>old changed a'.
           getVoxel cfg a pos = Inr old
         \<and> setVoxel cfg a pos v = Inr (changed, a')
         \<and> (\<not> changed) = (v = old)"
  using setVoxel_posInTile [OF inv pos, of v] getVoxel_posInTile [OF inv pos] by auto

theorem setVoxel_returns_changed_witness:
  "config_ok config0 \<and> accessor_inv config0 accessor0
   \<and> posInTile config0 (vector3int32 0 0 0)
   \<and> (\<exists>a'. getVoxel config0 accessor0 (vector3int32 0 0 0) = Inr (-1)
         \<and> setVoxel config0 accessor0 (vector3int32 0 0 0) (-1) = Inr (False, a'))
   \<and> (\<exists>a'. setVoxel config0 accessor0 (vector3int32 0 0 0) 7 = Inr (True, a'))"
proof -
  have pos: "posInTile config0 (vector3int32 0 0 0)"
    by (simp add: posInTile_def config0_simps)
  have old: "getVoxel config0 accessor0 (vector3int32 0 0 0) = Inr (-1)"
    using getVoxel_posInTile [OF accessor_inv_accessor0 pos]
    by (simp add: accessor0_def spec_index_def config0_simps)
  from setVoxel_returns_changed [OF config_ok_config0 accessor_inv_accessor0 pos, of "-1"]
    setVoxel_returns_changed [OF config_ok_config0 accessor_inv_accessor0 pos, of 7]
  show ?thesis
    using config_ok_config0 accessor_inv_accessor0 pos old by auto
qed

text \<open>
  C4. A freshly created cache has the main array allocated with exactly \<open>voxelCount\<close>
  default-initialized samples, the level-of-detail array absent, the flag false and
  both counters zero; so \<open>isEmpty()\<close> is true, and \<open>isFull()\<close> is false whenever
  \<open>voxelCountSurface > 0\<close>.
\<close>

theorem create_default_state:
  assumes cfg: "config_ok cfg"
  shows "\<exists>a. create cfg = Inr a
         \<and> int (length (getVoxelArray a)) = voxelCount cfg
         \<and> getVoxelArray a = replicate (nat (voxelCount cfg)) (voxelDefault cfg)
         \<and> getVoxelArrayLod a = None
         \<and> \<not> getCalculateLod a
         \<and> getNumVoxelLargerZero a = 0
         \<and> getNumVoxelLargerZeroLod a = 0
         \<and> isEmpty a
         \<and> (0 < voxelCountSurface cfg \<longrightarrow> \<not> isFull cfg a)"
  using cfg create_ok [OF cfg]
  by (simp add: getVoxelArray_def getVoxelArrayLod_def getCalculateLod_def
      getNumVoxelLargerZero_def getNumVoxelLargerZeroLod_def isEmpty_def isFull_def
      config_ok_def)

theorem create_default_state_witness:
  "config_ok config0 \<and> 0 < voxelCountSurface config0
   \<and> (\<exists>a. create config0 = Inr a \<and> length (getVoxelArray a) = 27
         \<and> getVoxelArrayLod a = None \<and> isEmpty a \<and> \<not> isFull config0 a)"
proof -
  have s: "0 < voxelCountSurface config0" by (simp add: config0_simps)
  have c: "voxelCount config0 = 27" by (simp add: config0_simps)
  from create_default_state [OF config_ok_config0] s c
  show ?thesis using config_ok_config0 by auto
qed

subsection \<open>The public level-of-detail overloads\<close>

lemma setVoxelLod_posOnFace:
  assumes cfg: "config_ok cfg" and inv: "accessor_inv cfg a"
    and lodArr: "m_voxelsLod a = Some voxelsLod"
    and pos: "posOnFace cfg pos lod" and prj: "calculateCoordsLod cfg pos lod = Inr index"
  shows "setVoxelLod cfg a pos v lod =
     Inr (voxelsLod ! nat (spec_indexLod cfg index lod) \<noteq> v,
          a\<lparr> m_numVoxelLargerZeroLod :=
                (if 0 \<le> getInterpolation cfg v
                 then m_numVoxelLargerZeroLod a + 1 else m_numVoxelLargerZeroLod a),
             m_voxelsLod := Some (voxelsLod[nat (spec_indexLod cfg index lod) := v]) \<rparr>)"
proof -
  have idx: "indexInPlane cfg index"
    using calculateCoordsLod_inPlane [OF pos] prj by simp
  have lod: "0 \<le> lod" "lod < 6" using pos by (simp_all add: posOnFace_def)
  show ?thesis
    using setVoxelLod_index_inPlane [OF cfg inv lodArr idx lod, of v] prj
    by (simp add: setVoxelLod_def)
qed

lemma getVoxelLod_posOnFace:
  assumes inv: "accessor_inv cfg a"
    and lodArr: "m_voxelsLod a = Some voxelsLod"
    and pos: "posOnFace cfg pos lod" and prj: "calculateCoordsLod cfg pos lod = Inr index"
  shows "getVoxelLod cfg a pos lod = Inr (voxelsLod ! nat (spec_indexLod cfg index lod))"
proof -
  have idx: "indexInPlane cfg index"
    using calculateCoordsLod_inPlane [OF pos] prj by simp
  have lod: "0 \<le> lod" "lod < 6" using pos by (simp_all add: posOnFace_def)
  show ?thesis
    using getVoxelLod_index_inPlane [OF inv lodArr idx lod] prj
    by (simp add: getVoxelLod_def)
qed

lemma accessor_inv_lodArray:
  assumes "accessor_inv cfg a" and "m_calculateLod a"
  shows "\<exists>voxelsLod. m_voxelsLod a = Some voxelsLod \<and> int (length voxelsLod) = voxelCountLodAll cfg"
  using assms by (cases "m_voxelsLod a") (simp_all add: accessor_inv_def)

lemma posOnFace_config0: "posOnFace config0 (vector3int32 0 1 1) 1"
  by (simp add: posOnFace_def config0_simps)

lemma posInTile_origin_config0: "posInTile config0 (vector3int32 0 0 0)"
  by (simp add: posInTile_def config0_simps)

subsection \<open>Claims about the counters\<close>

text \<open>
  C3. \<open>setVoxel(pos, v)\<close> increments \<open>numVoxelLargerZero\<close> exactly when the interpolation
  scalar of \<open>v\<close> is at least 0 and every component of \<open>pos\<close> lies in
  \<open>[0, voxelLengthSurface)\<close>. The old sample at \<open>pos\<close> plays no part: the new count is
  given by \<open>v\<close>, \<open>pos\<close> and the old count alone, so an empty sample never decrements,
  and writing the same non-empty sample twice at one position of the surface region
  adds two. \<open>setVoxelLod\<close> increments \<open>numVoxelLargerZeroLod\<close> whenever the sample is
  non-empty. The counters are 32-bit words, so "increments" is \<open>+ 1\<close> with wrap-around.
\<close>

theorem setVoxel_counter_bump:
  assumes cfg: "config_ok cfg" and inv: "accessor_inv cfg a" and pos: "posInTile cfg pos"
  shows "(\<exists>changed a'.
            setVoxel cfg a pos v = Inr (changed, a')
          \<and> getNumVoxelLargerZero a' =
              (if 0 \<le> getInterpolation cfg v \<and> posInSurface cfg pos
               then getNumVoxelLargerZero a + 1 else getNumVoxelLargerZero a)
          \<and> (getNumVoxelLargerZero a' = getNumVoxelLargerZero a + 1)
              = (0 \<le> getInterpolation cfg v \<and> posInSurface cfg pos))
       \<and> (0 \<le> getInterpolation cfg v \<and> posInSurface cfg pos \<longrightarrow>
            (\<exists>c1 a1 c2 a2.
                setVoxel cfg a pos v = Inr (c1, a1) \<and> setVoxel cfg a1 pos v = Inr (c2, a2)
              \<and> getNumVoxelLargerZero a2 = getNumVoxelLargerZero a + 2))
       \<and> (getCalculateLod a \<and> posOnFace cfg posLod lod \<longrightarrow>
            (\<exists>changed a'.
                setVoxelLod cfg a posLod v lod = Inr (changed, a')
              \<and> getNumVoxelLargerZeroLod a' =
                  (if 0 \<le> getInterpolation cfg v
                   then getNumVoxelLargerZeroLod a + 1 else getNumVoxelLargerZeroLod a)))"
proof (intro conjI impI)
  show "\<exists>changed a'.
            setVoxel cfg a pos v = Inr (changed, a')
          \<and> getNumVoxelLargerZero a' =
              (if 0 \<le> getInterpolation cfg v \<and> posInSurface cfg pos
               then getNumVoxelLargerZero a + 1 else getNumVoxelLargerZero a)
          \<and> (getNumVoxelLargerZero a' = getNumVoxelLargerZero a + 1)
              = (0 \<le> getInterpolation cfg v \<and> posInSurface cfg pos)"
    using setVoxel_posInTile [OF inv pos, of v] by (simp add: getNumVoxelLargerZero_def)
next
  assume ne: "0 \<le> getInterpolation cfg v \<and> posInSurface cfg pos"
  obtain c1 a1 where s1: "setVoxel cfg a pos v = Inr (c1, a1)"
    and n1: "m_numVoxelLargerZero a1 = m_numVoxelLargerZero a + 1"
    using setVoxel_posInTile [OF inv pos, of v] ne by simp
  have inv1: "accessor_inv cfg a1" by (rule setVoxel_inv [OF inv s1])
  obtain c2 a2 where s2: "setVoxel cfg a1 pos v = Inr (c2, a2)"
    and n2: "m_numVoxelLargerZero a2 = m_numVoxelLargerZero a1 + 1"
    using setVoxel_posInTile [OF inv1 pos, of v] ne by simp
  have "getNumVoxelLargerZero a2 = getNumVoxelLargerZero a + 2"
    using n1 n2 by (simp add: getNumVoxelLargerZero_def)
  with s1 s2 show "\<exists>c1 a1 c2 a2.
      setVoxel cfg a pos v = Inr (c1, a1) \<and> setVoxel cfg a1 pos v = Inr (c2, a2)
    \<and> getNumVoxelLargerZero a2 = getNumVoxelLargerZero a + 2"
    by blast
next
  assume h: "getCalculateLod a \<and> posOnFace cfg posLod lod"
  then have flag: "m_calculateLod a" and face: "posOnFace cfg posLod lod"
    by (simp_all add: getCalculateLod_def)
  obtain voxelsLod where arr: "m_voxelsLod a = Some voxelsLod"
    using accessor_inv_lodArray [OF inv flag] by blast
  obtain index where prj: "calculateCoordsLod cfg posLod lod = Inr index"
    using calculateCoordsLod_inPlane [OF face] by blast
  show "\<exists>changed a'.
      setVoxelLod cfg a posLod v lod = Inr (changed, a')
    \<and> getNumVoxelLargerZeroLod a' =
        (if 0 \<le> getInterpolation cfg v
         then getNumVoxelLargerZeroLod a + 1 else getNumVoxelLargerZeroLod a)"
    using setVoxelLod_posOnFace [OF cfg inv arr face prj, of v]
    by (simp add: getNumVoxelLargerZeroLod_def)
qed

theorem setVoxel_counter_bump_witness:
  "config_ok config0 \<and> accessor_inv config0 accessorLod0
   \<and> posInTile config0 (vector3int32 0 0 0)
   \<and> 0 \<le> getInterpolation config0 7 \<and> posInSurface config0 (vector3int32 0 0 0)
   \<and> getCalculateLod accessorLod0 \<and> posOnFace config0 (vector3int32 0 1 1) 1
   \<and> (\<exists>changed a'.
          setVoxel config0 accessorLod0 (vector3int32 0 0 0) 7 = Inr (changed, a')
        \<and> getNumVoxelLargerZero a' = 1)
   \<and> (\<exists>c1 a1 c2 a2.
          setVoxel config0 accessorLod0 (vector3int32 0 0 0) 7 = Inr (c1, a1)
        \<and> setVoxel config0 a1 (vector3int32 0 0 0) 7 = Inr (c2, a2)
        \<and> getNumVoxelLargerZero a2 = 2)
   \<and> (\<exists>changed a'.
          setVoxelLod config0 accessorLod0 (vector3int32 0 1 1) 7 1 = Inr (changed, a')
        \<and> getNumVoxelLargerZeroLod a' = 1)"
proof -
  have ne: "0 \<le> getInterpolation config0 7" by (simp add: config0_def)
  have surf: "posInSurface config0 (vector3int32 0 0 0)"
    by (simp add: posInSurface_def config0_simps)
  have flag: "getCalculateLod accessorLod0"
    by (simp add: getCalculateLod_def accessorLod0_def)
  have zero: "getNumVoxelLargerZero accessorLod0 = 0" "getNumVoxelLargerZeroLod accessorLod0 = 0"
    by (simp_all add: getNumVoxelLargerZero_def getNumVoxelLargerZeroLod_def accessorLod0_def)
  from setVoxel_counter_bump [OF config_ok_config0 accessor_inv_accessorLod0
      posInTile_origin_config0, of 7 "vector3int32 0 1 1" 1]
  show ?thesis
    using config_ok_config0 accessor_inv_accessorLod0 posInTile_origin_config0 ne surf flag
      posOnFace_config0 zero
    by simp
qed

subsection \<open>The level-of-detail setters keep the invariant\<close>

lemma setVoxelLod_index_inv:
  assumes "accessor_inv cfg a" and "setVoxelLod_index cfg a index v lod = Inr (c, a')"
  shows "accessor_inv cfg a'"
  using assms
  by (auto simp: setVoxelLod_index_def accessor_inv_def Let_def split: if_splits option.splits)

lemma setVoxelLod_inv:
  assumes "accessor_inv cfg a" and "setVoxelLod cfg a pos v lod = Inr (c, a')"
  shows "accessor_inv cfg a'"
  using assms setVoxelLod_index_inv [OF assms(1)]
  by (auto simp: setVoxelLod_def split: sum.splits)

subsection \<open>Claims about the level-of-detail planes\<close>

text \<open>
  C6. For every face index in \<open>[0, 6)\<close> and every position with all components in
  \<open>[0, voxelLengthLod)\<close> that lies on the zero plane of the face (\<open>x = 0\<close> for faces 0
  and 1, \<open>y = 0\<close> for faces 2 and 3, \<open>z = 0\<close> for faces 4 and 5), the projection
  \<open>calculateCoordsLod\<close> returns \<open>(y, z)\<close> for faces 0 and 1, \<open>(x, z)\<close> for faces 2 and 3,
  and \<open>(x, y)\<close> for faces 4 and 5.
\<close>

theorem calculateCoordsLod_projection:
  assumes cfg: "config_ok cfg" and face: "posOnFace cfg pos faceIndex"
  shows "(faceIndex = 0 \<or> faceIndex = 1 \<longrightarrow>
            calculateCoordsLod cfg pos faceIndex = Inr (vector2int32 (y3 pos) (z3 pos)))
       \<and> (faceIndex = 2 \<or> faceIndex = 3 \<longrightarrow>
            calculateCoordsLod cfg pos faceIndex = Inr (vector2int32 (x3 pos) (z3 pos)))
       \<and> (faceIndex = 4 \<or> faceIndex = 5 \<longrightarrow>
            calculateCoordsLod cfg pos faceIndex = Inr (vector2int32 (x3 pos) (y3 pos)))"
  using calculateCoordsLod_posOnFace [OF face] by auto

theorem calculateCoordsLod_projection_witness:
  "config_ok config0 \<and> posOnFace config0 (vector3int32 0 1 1) 1
   \<and> calculateCoordsLod config0 (vector3int32 0 1 1) 1 = Inr (vector2int32 1 1)
   \<and> posOnFace config0 (vector3int32 1 0 0) 2
   \<and> calculateCoordsLod config0 (vector3int32 1 0 0) 2 = Inr (vector2int32 1 0)
   \<and> posOnFace config0 (vector3int32 0 1 0) 5
   \<and> calculateCoordsLod config0 (vector3int32 0 1 0) 5 = Inr (vector2int32 0 1)"
proof -
  have f2: "posOnFace config0 (vector3int32 1 0 0) 2"
    and f5: "posOnFace config0 (vector3int32 0 1 0) 5"
    by (simp_all add: posOnFace_def config0_simps)
  from calculateCoordsLod_projection [OF config_ok_config0 posOnFace_config0]
    calculateCoordsLod_projection [OF config_ok_config0 f2]
    calculateCoordsLod_projection [OF config_ok_config0 f5]
  show ?thesis using config_ok_config0 posOnFace_config0 f2 f5 by simp
qed

text \<open>
  C7. With level of detail enabled, for every face index in \<open>[0, 6)\<close>, every position
  that satisfies the precondition of the projection and every sample \<open>v\<close>:
  \<open>setVoxelLod(pos, v, faceIndex)\<close> followed by \<open>getVoxelLod(pos, faceIndex)\<close> returns
  \<open>v\<close>. Both work at the index
  \<open>faceIndex\<cdot>voxelCountLodPlane + x2D\<cdot>voxelLengthLod + y2D\<close> of the projected coordinate:
  the setter replaces that cell, the getter returns it, and the setter returns whether
  the stored sample changed.
\<close>

theorem setVoxelLod_getVoxelLod_roundtrip:
  assumes cfg: "config_ok cfg" and inv: "accessor_inv cfg a"
    and flag: "getCalculateLod a" and face: "posOnFace cfg pos faceIndex"
  shows "\<exists>index voxelsLod changed a'.
           calculateCoordsLod cfg pos faceIndex = Inr index
         \<and> getVoxelArrayLod a = Some voxelsLod
         \<and> getVoxelLod cfg a pos faceIndex
             = Inr (voxelsLod ! nat (spec_indexLod cfg index faceIndex))
         \<and> setVoxelLod cfg a pos v faceIndex = Inr (changed, a')
         \<and> changed = (voxelsLod ! nat (spec_indexLod cfg index faceIndex) \<noteq> v)
         \<and> getVoxelArrayLod a' = Some (voxelsLod[nat (spec_indexLod cfg index faceIndex) := v])
         \<and> getVoxelLod cfg a' pos faceIndex = Inr v"
proof -
  have flag': "m_calculateLod a" using flag by (simp add: getCalculateLod_def)
  obtain voxelsLod where arr: "m_voxelsLod a = Some voxelsLod"
    and len: "int (length voxelsLod) = voxelCountLodAll cfg"
    using accessor_inv_lodArray [OF inv flag'] by blast
  obtain index where prj: "calculateCoordsLod cfg pos faceIndex = Inr index"
    and idx: "indexInPlane cfg index"
    using calculateCoordsLod_inPlane [OF face] by blast
  let ?i = "nat (spec_indexLod cfg index faceIndex)"
  have lod: "0 \<le> faceIndex" "faceIndex < 6" using face by (simp_all add: posOnFace_def)
  have inb: "?i < length voxelsLod"
    using spec_indexLod_range [OF idx lod] len by linarith
  obtain changed a' where set: "setVoxelLod cfg a pos v faceIndex = Inr (changed, a')"
    and ch: "changed = (voxelsLod ! ?i \<noteq> v)"
    and arr': "m_voxelsLod a' = Some (voxelsLod[?i := v])"
    using setVoxelLod_posOnFace [OF cfg inv arr face prj, of v] by simp
  have inv': "accessor_inv cfg a'" by (rule setVoxelLod_inv [OF inv set])
  have get: "getVoxelLod cfg a pos faceIndex = Inr (voxelsLod ! ?i)"
    by (rule getVoxelLod_posOnFace [OF inv arr face prj])
  have get': "getVoxelLod cfg a' pos faceIndex = Inr v"
    using getVoxelLod_posOnFace [OF inv' arr' face prj] inb by simp
  show ?thesis
    using prj arr get set ch arr' get' by (simp add: getVoxelArrayLod_def)
qed

theorem setVoxelLod_getVoxelLod_roundtrip_witness:
  "config_ok config0 \<and> accessor_inv config0 accessorLod0 \<and> getCalculateLod accessorLod0
   \<and> posOnFace config0 (vector3int32 0 1 1) 1
   \<and> (\<exists>a'. setVoxelLod config0 accessorLod0 (vector3int32 0 1 1) 7 1 = Inr (True, a')
          \<and> getVoxelArrayLod a' = Some ((replicate 24 (-1))[7 := 7])
          \<and> getVoxelLod config0 a' (vector3int32 0 1 1) 1 = Inr 7)
   \<and> getVoxelLod config0 accessorLod0 (vector3int32 0 1 1) 1 = Inr (-1)"
proof -
  have flag: "getCalculateLod accessorLod0"
    by (simp add: getCalculateLod_def accessorLod0_def)
  have arr: "getVoxelArrayLod accessorLod0 = Some (replicate 24 (-1))"
    by (simp add: getVoxelArrayLod_def accessorLod0_def)
  have prj: "calculateCoordsLod config0 (vector3int32 0 1 1) 1 = Inr (vector2int32 1 1)"
    using calculateCoordsLod_posOnFace [OF posOnFace_config0] by simp
  have i: "nat (spec_indexLod config0 (vector2int32 1 1) 1) = 7"
    by (simp add: spec_indexLod_def config0_simps)
  from setVoxelLod_getVoxelLod_roundtrip [OF config_ok_config0 accessor_inv_accessorLod0 flag
      posOnFace_config0, of 7]
  show ?thesis
    using config_ok_config0 accessor_inv_accessorLod0 flag posOnFace_config0
    by (auto simp: arr prj i)
qed

subsection \<open>Array bounds\<close>

text \<open>
  C9. For every position with every component in \<open>[-1, voxelLengthWithHalo - 2]\<close> the
  index in the main array lies in \<open>[0, voxelCount)\<close>, and for every face index in
  \<open>[0, 6)\<close> and projected coordinate with both components in \<open>[0, voxelLengthLod)\<close> the
  index in the level-of-detail array lies in \<open>[0, voxelCountLodAll)\<close>. So under these
  preconditions the indices lie inside the arrays of an object that satisfies the
  invariant, and the setters and getters return without an error.
\<close>

theorem indices_in_bounds:
  assumes cfg: "config_ok cfg" and inv: "accessor_inv cfg a"
  shows "(posInTile cfg pos \<longrightarrow>
            0 \<le> spec_index cfg pos \<and> spec_index cfg pos < voxelCount cfg
          \<and> spec_index cfg pos < int (length (getVoxelArray a))
          \<and> (\<exists>r. setVoxel cfg a pos v = Inr r) \<and> (\<exists>s. getVoxel cfg a pos = Inr s))
       \<and> (0 \<le> faceIndex \<and> faceIndex < 6 \<and> indexInPlane cfg index \<longrightarrow>
            0 \<le> spec_indexLod cfg index faceIndex
          \<and> spec_indexLod cfg index faceIndex < voxelCountLodAll cfg
          \<and> (\<forall>voxelsLod. getVoxelArrayLod a = Some voxelsLod \<longrightarrow>
                spec_indexLod cfg index faceIndex < int (length voxelsLod)
              \<and> (\<exists>r. setVoxelLod_index cfg a index v faceIndex = Inr r)
              \<and> (\<exists>s. getVoxelLod_index cfg a index faceIndex = Inr s)))"
proof (intro conjI impI allI)
  assume pos: "posInTile cfg pos"
  note rng = spec_index_range [OF pos]
  show "0 \<le> spec_index cfg pos" and "spec_index cfg pos < voxelCount cfg"
    using rng by simp_all
  show "spec_index cfg pos < int (length (getVoxelArray a))"
    using rng inv by (simp add: accessor_inv_def getVoxelArray_def)
  show "\<exists>r. setVoxel cfg a pos v = Inr r"
    using setVoxel_posInTile [OF inv pos, of v] by simp
  show "\<exists>s. getVoxel cfg a pos = Inr s"
    using getVoxel_posInTile [OF inv pos] by simp
next
  assume h: "0 \<le> faceIndex \<and> faceIndex < 6 \<and> indexInPlane cfg index"
  then have lod: "0 \<le> faceIndex" "faceIndex < 6" and idx: "indexInPlane cfg index"
    by simp_all
  note rng = spec_indexLod_range [OF idx lod]
  show "0 \<le> spec_indexLod cfg index faceIndex"
    and "spec_indexLod cfg index faceIndex < voxelCountLodAll cfg"
    using rng by simp_all
  fix voxelsLod
  assume "getVoxelArrayLod a = Some voxelsLod"
  then have arr: "m_voxelsLod a = Some voxelsLod" by (simp add: getVoxelArrayLod_def)
  show "spec_indexLod cfg index faceIndex < int (length voxelsLod)"
    using rng inv arr by (simp add: accessor_inv_def)
  show "\<exists>r. setVoxelLod_index cfg a index v faceIndex = Inr r"
    using setVoxelLod_index_inPlane [OF cfg inv arr idx lod, of v] by simp
  show "\<exists>s. getVoxelLod_index cfg a index faceIndex = Inr s"
    using getVoxelLod_index_inPlane [OF inv arr idx lod] by simp
qed

theorem indices_in_bounds_witness:
  "config_ok config0 \<and> accessor_inv config0 accessorLod0
   \<and> posInTile config0 (vector3int32 1 1 1)
   \<and> spec_index config0 (vector3int32 1 1 1) = 26 \<and> voxelCount config0 = 27
   \<and> (\<exists>r. setVoxel config0 accessorLod0 (vector3int32 1 1 1) 7 = Inr r)
   \<and> (\<exists>s. getVoxel config0 accessorLod0 (vector3int32 1 1 1) = Inr s)
   \<and> indexInPlane config0 (vector2int32 1 1)
   \<and> spec_indexLod config0 (vector2int32 1 1) 5 = 23 \<and> voxelCountLodAll config0 = 24
   \<and> getVoxelArrayLod accessorLod0 = Some (replicate 24 (-1))
   \<and> (\<exists>r. setVoxelLod_index config0 accessorLod0 (vector2int32 1 1) 7 5 = Inr r)
   \<and> (\<exists>s. getVoxelLod_index config0 accessorLod0 (vector2int32 1 1) 5 = Inr s)"
proof -
  have pos: "posInTile config0 (vector3int32 1 1 1)"
    by (simp add: posInTile_def config0_simps)
  have idx: "indexInPlane config0 (vector2int32 1 1)"
    by (simp add: indexInPlane_def config0_simps)
  have arr: "getVoxelArrayLod accessorLod0 = Some (replicate 24 (-1))"
    by (simp add: getVoxelArrayLod_def accessorLod0_def)
  have vals: "spec_index config0 (vector3int32 1 1 1) = 26" "voxelCount config0 = 27"
    "spec_indexLod config0 (vector2int32 1 1) 5 = 23" "voxelCountLodAll config0 = 24"
    by (simp_all add: spec_index_def spec_indexLod_def config0_simps)
  from indices_in_bounds [OF config_ok_config0 accessor_inv_accessorLod0,
      of "vector3int32 1 1 1" 7 5 "vector2int32 1 1"]
  show ?thesis
    using config_ok_config0 accessor_inv_accessorLod0 pos idx arr vals by simp
qed

subsection \<open>The level-of-detail flag and its array\<close>

lemma newVector_lod:
  "newVector (6 * voxelCountLod cfg) d = Inr (replicate (nat (voxelCountLodAll cfg)) d)"
  by (simp add: newVector_def voxelCountLodAll_def voxelCountLod_def)

lemma setCalculateLod_same:
  assumes "m_calculateLod a = b"
  shows "setCalculateLod cfg a b = Inr a"
  using assms by (simp add: setCalculateLod_def)

lemma setCalculateLod_enable:
  assumes "\<not> m_calculateLod a" and "m_voxelsLod a = None"
  shows "setCalculateLod cfg a True =
     Inr (a\<lparr> m_calculateLod := True,
             m_voxelsLod := Some (replicate (nat (voxelCountLodAll cfg)) (voxelDefault cfg)) \<rparr>)"
  using assms by (simp add: setCalculateLod_def newVector_lod)

lemma setCalculateLod_disable:
  assumes "m_calculateLod a"
  shows "setCalculateLod cfg a False = Inr (a\<lparr> m_calculateLod := False, m_voxelsLod := None \<rparr>)"
  using assms by (simp add: setCalculateLod_def)

lemma setCalculateLod_total:
  assumes "lodHandle_inv a"
  shows "\<exists>a'. setCalculateLod cfg a b = Inr a' \<and> m_calculateLod a' = b \<and> lodHandle_inv a'
             \<and> m_voxels a' = m_voxels a
             \<and> m_numVoxelLargerZero a' = m_numVoxelLargerZero a
             \<and> m_numVoxelLargerZeroLod a' = m_numVoxelLargerZeroLod a"
proof (cases "m_calculateLod a = b")
  case True
  with assms setCalculateLod_same [OF True, of cfg] show ?thesis by simp
next
  case False
  show ?thesis
  proof (cases b)
    case True
    with False have off: "\<not> m_calculateLod a" by simp
    then have "m_voxelsLod a = None" using assms by (simp add: lodHandle_inv_def)
    from setCalculateLod_enable [OF off this, of cfg] True
    show ?thesis by (simp add: lodHandle_inv_def)
  next
    case b: False
    with False have on: "m_calculateLod a" by simp
    from setCalculateLod_disable [OF on, of cfg] b
    show ?thesis by (simp add: lodHandle_inv_def)
  qed
qed

lemma voxelCountLodAll_nonneg: "0 \<le> voxelCountLodAll cfg"
  by (simp add: voxelCountLodAll_def voxelCountLod_def)

lemma setCalculateLod_inv:
  assumes "accessor_inv cfg a" and "setCalculateLod cfg a b = Inr a'"
  shows "accessor_inv cfg a'"
  using assms voxelCountLodAll_nonneg [of cfg]
  by (auto simp: setCalculateLod_def newVector_lod accessor_inv_def Let_def
      split: if_splits option.splits)

lemma setCalculateLod_lodHandle_inv:
  assumes "setCalculateLod cfg a b = Inr a'" and "lodHandle_inv a"
  shows "lodHandle_inv a'"
  using setCalculateLod_total [OF assms(2), of cfg b] assms(1) by auto

lemma setVoxel_lodHandle_inv:
  assumes "setVoxel cfg a pos v = Inr (c, a')" and "lodHandle_inv a"
  shows "lodHandle_inv a'"
  using assms by (auto simp: setVoxel_def lodHandle_inv_def Let_def split: if_splits)

lemma setVoxelLod_index_lodHandle_inv:
  assumes "setVoxelLod_index cfg a index v lod = Inr (c, a')"
  shows "lodHandle_inv a'"
  using assms
  by (auto simp: setVoxelLod_index_def lodHandle_inv_def Let_def split: if_splits option.splits)

lemma setVoxelLod_lodHandle_inv:
  assumes "setVoxelLod cfg a pos v lod = Inr (c, a')"
  shows "lodHandle_inv a'"
  using assms setVoxelLod_index_lodHandle_inv
  by (auto simp: setVoxelLod_def split: sum.splits)

lemma load_lodHandle_inv:
  assumes "load cfg a ar = Inr (a', ar')" and "lodHandle_inv a"
  shows "lodHandle_inv a'"
  using assms setCalculateLod_lodHandle_inv
  by (auto simp: load_def split: sum.splits prod.splits)

lemma serialize_load_lodHandle_inv:
  assumes "serialize_load cfg a ar = Inr (a', ar')" and "lodHandle_inv a"
  shows "lodHandle_inv a'"
proof -
  from assms(1) obtain n nLod ar2 a3 ar3 voxels ar4 where
    ld: "load cfg (a\<lparr> m_numVoxelLargerZero := n, m_numVoxelLargerZeroLod := nLod \<rparr>) ar2
           = Inr (a3, ar3)"
    and fin: "(if m_calculateLod (a3\<lparr> m_voxels := voxels \<rparr>) then
               (case m_voxelsLod (a3\<lparr> m_voxels := voxels \<rparr>) of
                  None \<Rightarrow> Inl AssertionFailed
                | Some _ \<Rightarrow>
                    (case readVoxels ar4 ''voxelsLod'' of
                       Inl e \<Rightarrow> Inl e
                     | Inr (voxelsLod, ar5) \<Rightarrow>
                         Inr (a3\<lparr> m_voxels := voxels, m_voxelsLod := Some voxelsLod \<rparr>, ar5)))
             else Inr (a3\<lparr> m_voxels := voxels \<rparr>, ar4)) = Inr (a', ar')"
    by (auto simp: serialize_load_def Let_def split: sum.splits prod.splits)
  have "lodHandle_inv (a\<lparr> m_numVoxelLargerZero := n, m_numVoxelLargerZeroLod := nLod \<rparr>)"
    using assms(2) by (simp add: lodHandle_inv_def)
  then have "lodHandle_inv a3" by (rule load_lodHandle_inv [OF ld])
  then show ?thesis
    using fin
    by (auto simp: lodHandle_inv_def split: if_splits option.splits sum.splits prod.splits)
qed

lemma create_lodHandle_inv:
  assumes "create cfg = Inr a"
  shows "lodHandle_inv a"
  using assms by (auto simp: create_def lodHandle_inv_def split: sum.splits)

lemma lodHandle_inv_accessor0: "lodHandle_inv accessor0"
  by (simp add: lodHandle_inv_def accessor0_def)

lemma lodHandle_inv_accessorLod0: "lodHandle_inv accessorLod0"
  by (simp add: lodHandle_inv_def accessorLod0_def)

subsection \<open>Claims about the flag\<close>

text \<open>
  C5. \<open>setCalculateLod(b)\<close> does nothing when \<open>b\<close> is the current flag, so a second call
  with the same argument returns the object of the first and allocates nothing.
  Enabling from disabled allocates a fresh default-initialized array of
  \<open>6\<cdot>voxelCountLodPlane\<close> samples, under the precondition that the array is absent (the
  call is an assertion failure otherwise); disabling deallocates the array. So the
  array handle is non-null if and only if the flag is true after the constructor, and
  every member function that changes the object keeps it so.
\<close>

theorem setCalculateLod_keeps_handle_invariant:
  assumes cfg: "config_ok cfg"
  shows
  "(m_calculateLod a = b \<longrightarrow> setCalculateLod cfg a b = Inr a)
   \<and> (\<forall>a1. setCalculateLod cfg a b = Inr a1 \<longrightarrow> setCalculateLod cfg a1 b = Inr a1)
   \<and> (\<not> m_calculateLod a \<and> m_voxelsLod a = None \<longrightarrow>
        setCalculateLod cfg a True =
          Inr (a\<lparr> m_calculateLod := True,
                  m_voxelsLod :=
                    Some (replicate (nat (6 * voxelCountLod cfg)) (voxelDefault cfg)) \<rparr>))
   \<and> (\<not> m_calculateLod a \<and> m_voxelsLod a \<noteq> None \<longrightarrow>
        setCalculateLod cfg a True = Inl AssertionFailed)
   \<and> (m_calculateLod a \<longrightarrow>
        setCalculateLod cfg a False = Inr (a\<lparr> m_calculateLod := False, m_voxelsLod := None \<rparr>))
   \<and> (\<forall>a'. create cfg = Inr a' \<longrightarrow> lodHandle_inv a')
   \<and> (lodHandle_inv a \<longrightarrow>
          (\<exists>a'. setCalculateLod cfg a b = Inr a' \<and> getCalculateLod a' = b \<and> lodHandle_inv a')
        \<and> (\<forall>c a'. setVoxel cfg a pos v = Inr (c, a') \<longrightarrow> lodHandle_inv a')
        \<and> (\<forall>c a'. setVoxelLod cfg a pos v lod = Inr (c, a') \<longrightarrow> lodHandle_inv a')
        \<and> (\<forall>c a'. setVoxelLod_index cfg a index v lod = Inr (c, a') \<longrightarrow> lodHandle_inv a')
        \<and> lodHandle_inv (setNumVoxelLargerZero a n)
        \<and> lodHandle_inv (setNumVoxelLargerZeroLod a n)
        \<and> (\<forall>a' ar'. load cfg a ar = Inr (a', ar') \<longrightarrow> lodHandle_inv a')
        \<and> (\<forall>a' ar'. serialize_load cfg a ar = Inr (a', ar') \<longrightarrow> lodHandle_inv a'))"
proof (intro conjI impI allI)
  show "setCalculateLod cfg a b = Inr a" if "m_calculateLod a = b"
    by (rule setCalculateLod_same [OF that])
  show "setCalculateLod cfg a1 b = Inr a1" if "setCalculateLod cfg a b = Inr a1" for a1
  proof -
    have "m_calculateLod a1 = b"
      using that
      by (auto simp: setCalculateLod_def newVector_lod Let_def split: if_splits)
    then show ?thesis by (rule setCalculateLod_same)
  qed
  show "setCalculateLod cfg a True =
          Inr (a\<lparr> m_calculateLod := True,
                  m_voxelsLod :=
                    Some (replicate (nat (6 * voxelCountLod cfg)) (voxelDefault cfg)) \<rparr>)"
    if "\<not> m_calculateLod a \<and> m_voxelsLod a = None"
    using that setCalculateLod_enable [of a cfg] by (simp add: voxelCountLodAll_def)
  show "setCalculateLod cfg a True = Inl AssertionFailed"
    if "\<not> m_calculateLod a \<and> m_voxelsLod a \<noteq> None"
    using that by (simp add: setCalculateLod_def)
  show "setCalculateLod cfg a False = Inr (a\<lparr> m_calculateLod := False, m_voxelsLod := None \<rparr>)"
    if "m_calculateLod a"
    by (rule setCalculateLod_disable [OF that])
  show "lodHandle_inv a'" if "create cfg = Inr a'" for a'
    by (rule create_lodHandle_inv [OF that])
  show "\<exists>a'. setCalculateLod cfg a b = Inr a' \<and> getCalculateLod a' = b \<and> lodHandle_inv a'"
    if "lodHandle_inv a"
    using setCalculateLod_total [OF that, of cfg b] by (auto simp: getCalculateLod_def)
  show "lodHandle_inv a'" if "lodHandle_inv a" "setVoxel cfg a pos v = Inr (c, a')" for c a'
    by (rule setVoxel_lodHandle_inv [OF that(2,1)])
  show "lodHandle_inv a'" if "setVoxelLod cfg a pos v lod = Inr (c, a')" for c a'
    by (rule setVoxelLod_lodHandle_inv [OF that])
  show "lodHandle_inv a'" if "setVoxelLod_index cfg a index v lod = Inr (c, a')" for c a'
    by (rule setVoxelLod_index_lodHandle_inv [OF that])
  show "lodHandle_inv (setNumVoxelLargerZero a n)" if "lodHandle_inv a"
    using that by (simp add: lodHandle_inv_def setNumVoxelLargerZero_def)
  show "lodHandle_inv (setNumVoxelLargerZeroLod a n)" if "lodHandle_inv a"
    using that by (simp add: lodHandle_inv_def setNumVoxelLargerZeroLod_def)
  show "lodHandle_inv a'" if "lodHandle_inv a" "load cfg a ar = Inr (a', ar')" for a' ar'
    by (rule load_lodHandle_inv [OF that(2,1)])
  show "lodHandle_inv a'" if "lodHandle_inv a" "serialize_load cfg a ar = Inr (a', ar')"
    for a' ar'
    by (rule serialize_load_lodHandle_inv [OF that(2,1)])
qed

theorem setCalculateLod_keeps_handle_invariant_witness:
  "config_ok config0 \<and> lodHandle_inv accessor0 \<and> lodHandle_inv accessorLod0
   \<and> setCalculateLod config0 accessor0 False = Inr accessor0
   \<and> setCalculateLod config0 accessor0 True = Inr accessorLod0
   \<and> setCalculateLod config0 accessorLod0 True = Inr accessorLod0
   \<and> setCalculateLod config0 accessorLod0 False = Inr accessor0
   \<and> setCalculateLod config0 (accessorLod0\<lparr> m_calculateLod := False \<rparr>) True
        = Inl AssertionFailed
   \<and> (\<exists>a'. create config0 = Inr a' \<and> lodHandle_inv a')"
proof -
  have off: "\<not> m_calculateLod accessor0 \<and> m_voxelsLod accessor0 = None"
    and on: "m_calculateLod accessorLod0"
    by (simp_all add: accessor0_def accessorLod0_def)
  have bad: "\<not> m_calculateLod (accessorLod0\<lparr> m_calculateLod := False \<rparr>)
      \<and> m_voxelsLod (accessorLod0\<lparr> m_calculateLod := False \<rparr>) \<noteq> None"
    by (simp add: accessorLod0_def)
  have e1: "accessor0\<lparr> m_calculateLod := True,
      m_voxelsLod := Some (replicate (nat (6 * voxelCountLod config0)) (voxelDefault config0)) \<rparr>
      = accessorLod0"
    by (simp add: accessor0_def accessorLod0_def config0_simps)
  have e2: "accessorLod0\<lparr> m_calculateLod := False, m_voxelsLod := None \<rparr> = accessor0"
    by (simp add: accessor0_def accessorLod0_def)
  note t0 = setCalculateLod_keeps_handle_invariant
      [OF config_ok_config0, where a = accessor0 and b = False]
  note t1 = setCalculateLod_keeps_handle_invariant
      [OF config_ok_config0, where a = accessorLod0 and b = True]
  note t2 = setCalculateLod_keeps_handle_invariant
      [OF config_ok_config0, where a = "accessorLod0\<lparr> m_calculateLod := False \<rparr>" and b = True]
  have "setCalculateLod config0 accessor0 False = Inr accessor0"
    using t0 off by blast
  moreover have "setCalculateLod config0 accessor0 True = Inr accessorLod0"
    using t0 off e1 by simp
  moreover have "setCalculateLod config0 accessorLod0 True = Inr accessorLod0"
    using t1 on by blast
  moreover have "setCalculateLod config0 accessorLod0 False = Inr accessor0"
    using t1 on e2 by simp
  moreover have "setCalculateLod config0 (accessorLod0\<lparr> m_calculateLod := False \<rparr>) True
      = Inl AssertionFailed"
    using t2 bad by blast
  moreover have "\<exists>a'. create config0 = Inr a' \<and> lodHandle_inv a'"
    using t0 create_config0 by blast
  ultimately show ?thesis
    using config_ok_config0 lodHandle_inv_accessor0 lodHandle_inv_accessorLod0 by blast
qed

text \<open>
  C10. \<open>setCalculateLod(false)\<close> deallocates the level-of-detail array and leaves
  \<open>numVoxelLargerZeroLod\<close> as it is: after disabling and enabling again the array is
  fresh and default-initialized while \<open>getNumVoxelLargerZeroLod\<close> still returns the count
  from before; \<open>setNumVoxelLargerZeroLod\<close> then sets it.
\<close>

theorem disable_keeps_lod_counter:
  assumes cfg: "config_ok cfg" and flag: "getCalculateLod a"
  shows "\<exists>a1 a2.
           setCalculateLod cfg a False = Inr a1
         \<and> getVoxelArrayLod a1 = None
         \<and> getNumVoxelLargerZeroLod a1 = getNumVoxelLargerZeroLod a
         \<and> setCalculateLod cfg a1 True = Inr a2
         \<and> getVoxelArrayLod a2
             = Some (replicate (nat (voxelCountLodAll cfg)) (voxelDefault cfg))
         \<and> getNumVoxelLargerZeroLod a2 = getNumVoxelLargerZeroLod a
         \<and> getNumVoxelLargerZeroLod (setNumVoxelLargerZeroLod a2 n) = n"
proof -
  have on: "m_calculateLod a" using flag by (simp add: getCalculateLod_def)
  let ?a1 = "a\<lparr> m_calculateLod := False, m_voxelsLod := None \<rparr>"
  have s1: "setCalculateLod cfg a False = Inr ?a1"
    by (rule setCalculateLod_disable [OF on])
  have s2: "setCalculateLod cfg ?a1 True =
      Inr (?a1\<lparr> m_calculateLod := True,
             m_voxelsLod := Some (replicate (nat (voxelCountLodAll cfg)) (voxelDefault cfg)) \<rparr>)"
    by (rule setCalculateLod_enable) simp_all
  show ?thesis
    using s1 s2
    by (simp add: getVoxelArrayLod_def getNumVoxelLargerZeroLod_def setNumVoxelLargerZeroLod_def)
qed

theorem disable_keeps_lod_counter_witness:
  "config_ok config0 \<and> getCalculateLod (setNumVoxelLargerZeroLod accessorLod0 3)
   \<and> (\<exists>a1 a2.
           setCalculateLod config0 (setNumVoxelLargerZeroLod accessorLod0 3) False = Inr a1
         \<and> getVoxelArrayLod a1 = None
         \<and> getNumVoxelLargerZeroLod a1 = 3
         \<and> setCalculateLod config0 a1 True = Inr a2
         \<and> getVoxelArrayLod a2 = Some (replicate 24 (-1))
         \<and> getNumVoxelLargerZeroLod a2 = 3
         \<and> getNumVoxelLargerZeroLod (setNumVoxelLargerZeroLod a2 0) = 0)"
proof -
  have on: "getCalculateLod (setNumVoxelLargerZeroLod accessorLod0 3)"
    by (simp add: getCalculateLod_def setNumVoxelLargerZeroLod_def accessorLod0_def)
  have n: "getNumVoxelLargerZeroLod (setNumVoxelLargerZeroLod accessorLod0 3) = 3"
    by (simp add: getNumVoxelLargerZeroLod_def setNumVoxelLargerZeroLod_def)
  have c: "nat (voxelCountLodAll config0) = 24" "voxelDefault config0 = -1"
    by (simp_all add: config0_simps)
  from disable_keeps_lod_counter [OF config_ok_config0 on, of 0]
  show ?thesis using config_ok_config0 on by (simp add: n c)
qed

subsection \<open>Saving and loading\<close>

lemma serialize_save_fields:
  assumes "lodHandle_inv a"
  shows "serialize_save a ar =
     Inr (ar @ [(''numVoxelLargerZero'', AInt32 (m_numVoxelLargerZero a)),
                (''numVoxelLargerZeroLod'', AInt32 (m_numVoxelLargerZeroLod a)),
                (''calculateLod'', ABool (m_calculateLod a)),
                (''voxels'', AVoxels (m_voxels a))]
             @ (case m_voxelsLod a of
                  None \<Rightarrow> []
                | Some voxelsLod \<Rightarrow> [(''voxelsLod'', AVoxels voxelsLod)]))"
  using assms
  by (cases "m_voxelsLod a")
     (auto simp: serialize_save_def save_def writeValue_def lodHandle_inv_def Let_def)

lemma load_fields:
  assumes "lodHandle_inv b"
  shows "\<exists>a3. load cfg b ((''calculateLod'', ABool f) # ar) = Inr (a3, ar)
            \<and> setCalculateLod cfg b f = Inr a3
            \<and> m_calculateLod a3 = f \<and> lodHandle_inv a3
            \<and> m_voxels a3 = m_voxels b
            \<and> m_numVoxelLargerZero a3 = m_numVoxelLargerZero b
            \<and> m_numVoxelLargerZeroLod a3 = m_numVoxelLargerZeroLod b"
  using setCalculateLod_total [OF assms, of cfg f] by (auto simp: load_def)

lemma serialize_load_fields:
  assumes a: "lodHandle_inv a" and b: "lodHandle_inv b"
  shows "serialize_load cfg b
           ([(''numVoxelLargerZero'', AInt32 (m_numVoxelLargerZero a)),
             (''numVoxelLargerZeroLod'', AInt32 (m_numVoxelLargerZeroLod a)),
             (''calculateLod'', ABool (m_calculateLod a)),
             (''voxels'', AVoxels (m_voxels a))]
            @ (case m_voxelsLod a of
                 None \<Rightarrow> []
               | Some voxelsLod \<Rightarrow> [(''voxelsLod'', AVoxels voxelsLod)])
            @ rest)
         = Inr (a, rest)"
proof -
  let ?b = "b\<lparr> m_numVoxelLargerZero := m_numVoxelLargerZero a,
                m_numVoxelLargerZeroLod := m_numVoxelLargerZeroLod a \<rparr>"
  let ?tail = "(case m_voxelsLod a of
                 None \<Rightarrow> []
               | Some voxelsLod \<Rightarrow> [(''voxelsLod'', AVoxels voxelsLod)]) @ rest"
  have b': "lodHandle_inv ?b" using b by (simp add: lodHandle_inv_def)
  obtain a3 where ld: "load cfg ?b ((''calculateLod'', ABool (m_calculateLod a))
        # (''voxels'', AVoxels (m_voxels a)) # ?tail)
      = Inr (a3, (''voxels'', AVoxels (m_voxels a)) # ?tail)"
    and flag: "m_calculateLod a3 = m_calculateLod a" and h3: "lodHandle_inv a3"
    and n: "m_numVoxelLargerZero a3 = m_numVoxelLargerZero a"
    and nLod: "m_numVoxelLargerZeroLod a3 = m_numVoxelLargerZeroLod a"
    using load_fields [OF b', of cfg "m_calculateLod a"] by auto
  show ?thesis
  proof (cases "m_voxelsLod a")
    case None
    then have off: "\<not> m_calculateLod a" using a by (simp add: lodHandle_inv_def)
    then have "m_voxelsLod a3 = None" using h3 flag by (simp add: lodHandle_inv_def)
    then have "a3\<lparr> m_voxels := m_voxels a \<rparr> = a"
      using None flag n nLod by (intro accessor.equality) simp_all
    then show ?thesis
      using ld None off flag by (simp add: serialize_load_def Let_def)
  next
    case (Some voxelsLod)
    then have on: "m_calculateLod a" using a by (simp add: lodHandle_inv_def)
    then obtain l3 where l3: "m_voxelsLod a3 = Some l3"
      using h3 flag by (auto simp: lodHandle_inv_def)
    have "a3\<lparr> m_voxels := m_voxels a, m_voxelsLod := Some voxelsLod \<rparr> = a"
      using Some flag n nLod by (intro accessor.equality) simp_all
    then show ?thesis
      using ld Some on flag l3 by (simp add: serialize_load_def Let_def)
  qed
qed

lemma serialize_load_header:
  "serialize_load cfg b
     ((''numVoxelLargerZero'', AInt32 n) # (''numVoxelLargerZeroLod'', AInt32 nLod)
        # (''calculateLod'', ABool f) # rest)
   = (case setCalculateLod cfg
             (b\<lparr> m_numVoxelLargerZero := n, m_numVoxelLargerZeroLod := nLod \<rparr>) f of
        Inl e \<Rightarrow> Inl e
      | Inr a3 \<Rightarrow>
          (case readVoxels rest ''voxels'' of
             Inl e \<Rightarrow> Inl e
           | Inr (voxels, ar4) \<Rightarrow>
               if m_calculateLod a3 then
                 (case m_voxelsLod a3 of
                    None \<Rightarrow> Inl AssertionFailed
                  | Some _ \<Rightarrow>
                      (case readVoxels ar4 ''voxelsLod'' of
                         Inl e \<Rightarrow> Inl e
                       | Inr (voxelsLod, ar5) \<Rightarrow>
                           Inr (a3\<lparr> m_voxels := voxels, m_voxelsLod := Some voxelsLod \<rparr>,
                                ar5)))
               else Inr (a3\<lparr> m_voxels := voxels \<rparr>, ar4)))"
  by (simp add: serialize_load_def load_def Let_def split: sum.splits prod.splits option.splits)

lemma lodHandle_inv_accessorPopulated0: "lodHandle_inv accessorPopulated0"
  by (simp add: lodHandle_inv_def accessorPopulated0_def)

lemma lodHandle_inv_accessorLodPopulated0: "lodHandle_inv accessorLodPopulated0"
  by (simp add: lodHandle_inv_def accessorLodPopulated0_def)

subsection \<open>Claim about serialization\<close>

text \<open>
  C8. Serializing a cache and deserializing into a fresh instance yields a cache with
  the same flag, the same two counters (hence the same \<open>isEmpty\<close> and \<open>isFull\<close>), the
  same main array and, exactly when the flag is true, the same level-of-detail array:
  the archive holds the two counters, the flag, the main array and, exactly when the
  flag is true, the level-of-detail array, and the restored object is the saved one.
  During the restore the flag is applied by \<open>setCalculateLod\<close> before the voxel payload
  is read. For the saved archive: after the two counters, \<open>load\<close> consumes the flag, its
  result is the result of \<open>setCalculateLod\<close> on the instance with the saved flag, and
  the archive it leaves starts with the main array. For the restore itself, on every
  object and every archive that starts with the two counters and the flag: the result
  of \<open>serialize\<close> is decided by \<open>setCalculateLod\<close> first, so when that call fails the
  restore fails with its error whatever follows the flag in the archive, and otherwise
  the payload is read from what follows the flag into the object that
  \<open>setCalculateLod\<close> returned. The saved cache is any object whose array handle is
  non-null exactly when its flag is true.
\<close>

theorem serialize_roundtrip:
  assumes cfg: "config_ok cfg" and inv: "lodHandle_inv a"
  shows "(\<exists>ar fresh a' ar2 a3 ar3 ar4.
           serialize_save a [] = Inr ar
         \<and> create cfg = Inr fresh
         \<and> serialize_load cfg fresh ar = Inr (a', [])
         \<and> a' = a
         \<and> getCalculateLod a' = getCalculateLod a
         \<and> getNumVoxelLargerZero a' = getNumVoxelLargerZero a
         \<and> getNumVoxelLargerZeroLod a' = getNumVoxelLargerZeroLod a
         \<and> isEmpty a' = isEmpty a
         \<and> isFull cfg a' = isFull cfg a
         \<and> getVoxelArray a' = getVoxelArray a
         \<and> getVoxelArrayLod a' = getVoxelArrayLod a
         \<and> length ar = (if getCalculateLod a then 5 else 4)
         \<and> ar = (''numVoxelLargerZero'', AInt32 (getNumVoxelLargerZero a))
                # (''numVoxelLargerZeroLod'', AInt32 (getNumVoxelLargerZeroLod a)) # ar2
         \<and> ar2 = (''calculateLod'', ABool (getCalculateLod a)) # ar3
         \<and> ar3 = (''voxels'', AVoxels (getVoxelArray a)) # ar4
         \<and> ar4 = (case getVoxelArrayLod a of
                     None \<Rightarrow> []
                   | Some voxelsLod \<Rightarrow> [(''voxelsLod'', AVoxels voxelsLod)])
         \<and> load cfg (fresh\<lparr> m_numVoxelLargerZero := getNumVoxelLargerZero a,
                             m_numVoxelLargerZeroLod := getNumVoxelLargerZeroLod a \<rparr>) ar2
             = Inr (a3, ar3)
         \<and> setCalculateLod cfg
               (fresh\<lparr> m_numVoxelLargerZero := getNumVoxelLargerZero a,
                       m_numVoxelLargerZeroLod := getNumVoxelLargerZeroLod a \<rparr>)
               (getCalculateLod a)
             = Inr a3
         \<and> readVoxels ar3 ''voxels'' = Inr (getVoxelArray a, ar4))
       \<and> (\<forall>e. setCalculateLod cfg
                   (b\<lparr> m_numVoxelLargerZero := n, m_numVoxelLargerZeroLod := nLod \<rparr>) f
                 = Inl e \<longrightarrow>
              serialize_load cfg b
                ((''numVoxelLargerZero'', AInt32 n) # (''numVoxelLargerZeroLod'', AInt32 nLod)
                   # (''calculateLod'', ABool f) # rest)
              = Inl e)
       \<and> (\<forall>a3. setCalculateLod cfg
                    (b\<lparr> m_numVoxelLargerZero := n, m_numVoxelLargerZeroLod := nLod \<rparr>) f
                  = Inr a3 \<longrightarrow>
              serialize_load cfg b
                ((''numVoxelLargerZero'', AInt32 n) # (''numVoxelLargerZeroLod'', AInt32 nLod)
                   # (''calculateLod'', ABool f) # rest)
              = (case readVoxels rest ''voxels'' of
                   Inl e \<Rightarrow> Inl e
                 | Inr (voxels, ar4) \<Rightarrow>
                     if m_calculateLod a3 then
                       (case m_voxelsLod a3 of
                          None \<Rightarrow> Inl AssertionFailed
                        | Some _ \<Rightarrow>
                            (case readVoxels ar4 ''voxelsLod'' of
                               Inl e \<Rightarrow> Inl e
                             | Inr (voxelsLod, ar5) \<Rightarrow>
                                 Inr (a3\<lparr> m_voxels := voxels,
                                          m_voxelsLod := Some voxelsLod \<rparr>, ar5)))
                     else Inr (a3\<lparr> m_voxels := voxels \<rparr>, ar4)))"
proof (intro conjI allI impI)
  let ?lod = "case m_voxelsLod a of
                None \<Rightarrow> []
              | Some voxelsLod \<Rightarrow> [(''voxelsLod'', AVoxels voxelsLod)]"
  let ?ar3 = "(''voxels'', AVoxels (m_voxels a)) # ?lod"
  let ?ar2 = "(''calculateLod'', ABool (m_calculateLod a)) # ?ar3"
  let ?ar = "(''numVoxelLargerZero'', AInt32 (m_numVoxelLargerZero a))
               # (''numVoxelLargerZeroLod'', AInt32 (m_numVoxelLargerZeroLod a)) # ?ar2"
  obtain fresh where fresh: "create cfg = Inr fresh"
    using create_ok [OF cfg] by simp
  have hf: "lodHandle_inv fresh" by (rule create_lodHandle_inv [OF fresh])
  have sv: "serialize_save a [] = Inr ?ar"
    using serialize_save_fields [OF inv, of "[]"] by simp
  have ld: "serialize_load cfg fresh ?ar = Inr (a, [])"
    using serialize_load_fields [OF inv hf, of cfg "[]"] by simp
  have len: "length ?ar = (if getCalculateLod a then 5 else 4)"
    using inv by (cases "m_voxelsLod a") (auto simp: lodHandle_inv_def getCalculateLod_def)
  let ?f = "fresh\<lparr> m_numVoxelLargerZero := m_numVoxelLargerZero a,
                    m_numVoxelLargerZeroLod := m_numVoxelLargerZeroLod a \<rparr>"
  have "lodHandle_inv ?f" using hf by (simp add: lodHandle_inv_def)
  from load_fields [OF this, of cfg "m_calculateLod a" ?ar3]
  obtain a3 where l3: "load cfg ?f ?ar2 = Inr (a3, ?ar3)"
    and s3: "setCalculateLod cfg ?f (m_calculateLod a) = Inr a3"
    by blast
  have rd: "readVoxels ?ar3 ''voxels'' = Inr (m_voxels a, ?lod)"
    by simp
  show "\<exists>ar fresh a' ar2 a3 ar3 ar4.
           serialize_save a [] = Inr ar
         \<and> create cfg = Inr fresh
         \<and> serialize_load cfg fresh ar = Inr (a', [])
         \<and> a' = a
         \<and> getCalculateLod a' = getCalculateLod a
         \<and> getNumVoxelLargerZero a' = getNumVoxelLargerZero a
         \<and> getNumVoxelLargerZeroLod a' = getNumVoxelLargerZeroLod a
         \<and> isEmpty a' = isEmpty a
         \<and> isFull cfg a' = isFull cfg a
         \<and> getVoxelArray a' = getVoxelArray a
         \<and> getVoxelArrayLod a' = getVoxelArrayLod a
         \<and> length ar = (if getCalculateLod a then 5 else 4)
         \<and> ar = (''numVoxelLargerZero'', AInt32 (getNumVoxelLargerZero a))
                # (''numVoxelLargerZeroLod'', AInt32 (getNumVoxelLargerZeroLod a)) # ar2
         \<and> ar2 = (''calculateLod'', ABool (getCalculateLod a)) # ar3
         \<and> ar3 = (''voxels'', AVoxels (getVoxelArray a)) # ar4
         \<and> ar4 = (case getVoxelArrayLod a of
                     None \<Rightarrow> []
                   | Some voxelsLod \<Rightarrow> [(''voxelsLod'', AVoxels voxelsLod)])
         \<and> load cfg (fresh\<lparr> m_numVoxelLargerZero := getNumVoxelLargerZero a,
                             m_numVoxelLargerZeroLod := getNumVoxelLargerZeroLod a \<rparr>) ar2
             = Inr (a3, ar3)
         \<and> setCalculateLod cfg
               (fresh\<lparr> m_numVoxelLargerZero := getNumVoxelLargerZero a,
                       m_numVoxelLargerZeroLod := getNumVoxelLargerZeroLod a \<rparr>)
               (getCalculateLod a)
             = Inr a3
         \<and> readVoxels ar3 ''voxels'' = Inr (getVoxelArray a, ar4)"
    apply (rule exI [of _ ?ar], rule exI [of _ fresh], rule exI [of _ a], rule exI [of _ ?ar2],
        rule exI [of _ a3], rule exI [of _ ?ar3], rule exI [of _ ?lod])
    using sv fresh ld len l3 s3 rd
    by (simp add: getCalculateLod_def getNumVoxelLargerZero_def getNumVoxelLargerZeroLod_def
        getVoxelArray_def getVoxelArrayLod_def)
next
  fix e
  assume "setCalculateLod cfg
            (b\<lparr> m_numVoxelLargerZero := n, m_numVoxelLargerZeroLod := nLod \<rparr>) f = Inl e"
  then show "serialize_load cfg b
                ((''numVoxelLargerZero'', AInt32 n) # (''numVoxelLargerZeroLod'', AInt32 nLod)
                   # (''calculateLod'', ABool f) # rest)
              = Inl e"
    by (simp add: serialize_load_header)
next
  fix a3
  assume "setCalculateLod cfg
            (b\<lparr> m_numVoxelLargerZero := n, m_numVoxelLargerZeroLod := nLod \<rparr>) f = Inr a3"
  then show "serialize_load cfg b
                ((''numVoxelLargerZero'', AInt32 n) # (''numVoxelLargerZeroLod'', AInt32 nLod)
                   # (''calculateLod'', ABool f) # rest)
              = (case readVoxels rest ''voxels'' of
                   Inl e \<Rightarrow> Inl e
                 | Inr (voxels, ar4) \<Rightarrow>
                     if m_calculateLod a3 then
                       (case m_voxelsLod a3 of
                          None \<Rightarrow> Inl AssertionFailed
                        | Some _ \<Rightarrow>
                            (case readVoxels ar4 ''voxelsLod'' of
                               Inl e \<Rightarrow> Inl e
                             | Inr (voxelsLod, ar5) \<Rightarrow>
                                 Inr (a3\<lparr> m_voxels := voxels,
                                          m_voxelsLod := Some voxelsLod \<rparr>, ar5)))
                     else Inr (a3\<lparr> m_voxels := voxels \<rparr>, ar4))"
    by (simp add: serialize_load_header)
qed

theorem serialize_roundtrip_witness:
  "config_ok config0 \<and> lodHandle_inv accessorLodPopulated0 \<and> lodHandle_inv accessorPopulated0
   \<and> create config0 = Inr accessor0
   \<and> serialize_save accessorLodPopulated0 [] =
       Inr [(''numVoxelLargerZero'', AInt32 1), (''numVoxelLargerZeroLod'', AInt32 2),
            (''calculateLod'', ABool True),
            (''voxels'', AVoxels ((replicate 27 (-1))[13 := 7, 5 := 3])),
            (''voxelsLod'', AVoxels ((replicate 24 (-1))[7 := 7, 23 := 2]))]
   \<and> serialize_load config0 accessor0
         [(''numVoxelLargerZero'', AInt32 1), (''numVoxelLargerZeroLod'', AInt32 2),
          (''calculateLod'', ABool True),
          (''voxels'', AVoxels ((replicate 27 (-1))[13 := 7, 5 := 3])),
          (''voxelsLod'', AVoxels ((replicate 24 (-1))[7 := 7, 23 := 2]))]
       = Inr (\<lparr> m_voxels = (replicate 27 (-1))[13 := 7, 5 := 3],
                 m_voxelsLod = Some ((replicate 24 (-1))[7 := 7, 23 := 2]),
                 m_calculateLod = True, m_numVoxelLargerZero = 1,
                 m_numVoxelLargerZeroLod = 2 \<rparr>, [])
   \<and> serialize_save accessorPopulated0 [] =
       Inr [(''numVoxelLargerZero'', AInt32 1), (''numVoxelLargerZeroLod'', AInt32 5),
            (''calculateLod'', ABool False),
            (''voxels'', AVoxels ((replicate 27 (-1))[13 := 7, 5 := 3]))]
   \<and> serialize_load config0 accessor0
         [(''numVoxelLargerZero'', AInt32 1), (''numVoxelLargerZeroLod'', AInt32 5),
          (''calculateLod'', ABool False),
          (''voxels'', AVoxels ((replicate 27 (-1))[13 := 7, 5 := 3]))]
       = Inr (\<lparr> m_voxels = (replicate 27 (-1))[13 := 7, 5 := 3], m_voxelsLod = None,
                 m_calculateLod = False, m_numVoxelLargerZero = 1,
                 m_numVoxelLargerZeroLod = 5 \<rparr>, [])
   \<and> serialize_load config0 (accessorLod0\<lparr> m_calculateLod := False \<rparr>)
         [(''numVoxelLargerZero'', AInt32 1), (''numVoxelLargerZeroLod'', AInt32 2),
          (''calculateLod'', ABool True)]
       = Inl AssertionFailed
   \<and> serialize_load config0 accessor0
         [(''numVoxelLargerZero'', AInt32 1), (''numVoxelLargerZeroLod'', AInt32 2),
          (''calculateLod'', ABool True)]
       = Inl ArchiveError"
proof -
  have g1: "getNumVoxelLargerZero accessorLodPopulated0 = 1"
    "getNumVoxelLargerZeroLod accessorLodPopulated0 = 2"
    "getCalculateLod accessorLodPopulated0"
    "getVoxelArray accessorLodPopulated0 = (replicate 27 (-1))[13 := 7, 5 := 3]"
    "getVoxelArrayLod accessorLodPopulated0 = Some ((replicate 24 (-1))[7 := 7, 23 := 2])"
    by (simp_all add: accessorLodPopulated0_def getNumVoxelLargerZero_def
        getNumVoxelLargerZeroLod_def getCalculateLod_def getVoxelArray_def getVoxelArrayLod_def)
  have g2: "getNumVoxelLargerZero accessorPopulated0 = 1"
    "getNumVoxelLargerZeroLod accessorPopulated0 = 5"
    "\<not> getCalculateLod accessorPopulated0"
    "getVoxelArray accessorPopulated0 = (replicate 27 (-1))[13 := 7, 5 := 3]"
    "getVoxelArrayLod accessorPopulated0 = None"
    by (simp_all add: accessorPopulated0_def getNumVoxelLargerZero_def
        getNumVoxelLargerZeroLod_def getCalculateLod_def getVoxelArray_def getVoxelArrayLod_def)
  have bad: "setCalculateLod config0
      (accessorLod0\<lparr> m_calculateLod := False, m_numVoxelLargerZero := 1,
                      m_numVoxelLargerZeroLod := 2 \<rparr>) True
      = Inl AssertionFailed"
    by (simp add: setCalculateLod_def accessorLod0_def)
  have good: "setCalculateLod config0
      (accessor0\<lparr> m_numVoxelLargerZero := 1, m_numVoxelLargerZeroLod := 2 \<rparr>) True
      = Inr (accessorLod0\<lparr> m_numVoxelLargerZero := 1, m_numVoxelLargerZeroLod := 2 \<rparr>)"
    by (simp add: setCalculateLod_def newVector_def accessor0_def accessorLod0_def config0_simps)
  note r1 = serialize_roundtrip [OF config_ok_config0 lodHandle_inv_accessorLodPopulated0,
      where b = "accessorLod0\<lparr> m_calculateLod := False \<rparr>" and n = 1 and nLod = 2
        and f = True and rest = "[]"]
  note r2 = serialize_roundtrip [OF config_ok_config0 lodHandle_inv_accessorPopulated0,
      where b = accessor0 and n = 1 and nLod = 2 and f = True and rest = "[]"]
  have s1: "serialize_save accessorLodPopulated0 [] =
       Inr [(''numVoxelLargerZero'', AInt32 1), (''numVoxelLargerZeroLod'', AInt32 2),
            (''calculateLod'', ABool True),
            (''voxels'', AVoxels ((replicate 27 (-1))[13 := 7, 5 := 3])),
            (''voxelsLod'', AVoxels ((replicate 24 (-1))[7 := 7, 23 := 2]))]"
    and l1: "serialize_load config0 accessor0
         [(''numVoxelLargerZero'', AInt32 1), (''numVoxelLargerZeroLod'', AInt32 2),
          (''calculateLod'', ABool True),
          (''voxels'', AVoxels ((replicate 27 (-1))[13 := 7, 5 := 3])),
          (''voxelsLod'', AVoxels ((replicate 24 (-1))[7 := 7, 23 := 2]))]
       = Inr (accessorLodPopulated0, [])"
    using r1 by (auto simp: g1 create_config0)
  have s2: "serialize_save accessorPopulated0 [] =
       Inr [(''numVoxelLargerZero'', AInt32 1), (''numVoxelLargerZeroLod'', AInt32 5),
            (''calculateLod'', ABool False),
            (''voxels'', AVoxels ((replicate 27 (-1))[13 := 7, 5 := 3]))]"
    and l2: "serialize_load config0 accessor0
         [(''numVoxelLargerZero'', AInt32 1), (''numVoxelLargerZeroLod'', AInt32 5),
          (''calculateLod'', ABool False),
          (''voxels'', AVoxels ((replicate 27 (-1))[13 := 7, 5 := 3]))]
       = Inr (accessorPopulated0, [])"
    using r2 by (auto simp: g2 create_config0)
  have o1: "serialize_load config0 (accessorLod0\<lparr> m_calculateLod := False \<rparr>)
         [(''numVoxelLargerZero'', AInt32 1), (''numVoxelLargerZeroLod'', AInt32 2),
          (''calculateLod'', ABool True)]
       = Inl AssertionFailed"
    using r1 bad by simp
  have o2: "serialize_load config0 accessor0
         [(''numVoxelLargerZero'', AInt32 1), (''numVoxelLargerZeroLod'', AInt32 2),
          (''calculateLod'', ABool True)]
       = Inl ArchiveError"
    using r2 good by simp
  show ?thesis
    using config_ok_config0 lodHandle_inv_accessorLodPopulated0
      lodHandle_inv_accessorPopulated0 create_config0 s1 s2 o1 o2
      l1 [unfolded accessorLodPopulated0_def] l2 [unfolded accessorPopulated0_def]
    by simp
qed

end
